theory Spec2Isabelle
  imports Complex_Main "HOL-Library.AList"
begin

section \<open>JavaScript values and errors\<close>

text \<open>
  Payloads, data-point fields and command parameters are untyped JavaScript values.
  Numbers carry no arithmetic in the modelled code; only their truthiness is observed,
  so a rational stands for a finite number and \<open>JNaN\<close> for not-a-number.
  A \<open>Date\<close> is its millisecond count. Object literals are association lists in
  key order.
\<close>

datatype jsval =
    Undefined
  | Null
  | JBool bool
  | JNum rat
  | JNaN
  | JStr string
  | JDate int
  | JArr "jsval list"
  | JObj "(string \<times> jsval) list"

datatype error =
    Error string
  | TypeError string
  | SyntaxError string

text \<open>JavaScript truthiness, as used by \<open>!x\<close>, \<open>if (x)\<close> and \<open>x || y\<close>.\<close>

fun truthy :: "jsval \<Rightarrow> bool" where
  "truthy Undefined = False"
| "truthy Null = False"
| "truthy (JBool b) = b"
| "truthy (JNum n) = (n \<noteq> 0)"
| "truthy JNaN = False"
| "truthy (JStr s) = (s \<noteq> [])"
| "truthy (JDate t) = True"
| "truthy (JArr xs) = True"
| "truthy (JObj kvs) = True"

definition js_or :: "jsval \<Rightarrow> jsval \<Rightarrow> jsval" where
  "js_or a b = (if truthy a then a else b)"

text \<open>Property read \<open>o.k\<close>: a missing key, or any key of a primitive, reads as
  \<open>undefined\<close>; \<open>get_prop\<close> is the read that throws a TypeError on \<open>undefined\<close> and
  \<open>null\<close>, \<open>read_prop\<close> the read on a value already known to be neither.\<close>

fun read_prop :: "jsval \<Rightarrow> string \<Rightarrow> jsval" where
  "read_prop (JObj kvs) k = (case map_of kvs k of Some v \<Rightarrow> v | None \<Rightarrow> Undefined)"
| "read_prop v k = Undefined"

fun get_prop :: "jsval \<Rightarrow> string \<Rightarrow> error + jsval" where
  "get_prop Undefined k = Inl (TypeError (''Cannot read properties of undefined (reading '' @ k @ '')''))"
| "get_prop Null k = Inl (TypeError (''Cannot read properties of null (reading '' @ k @ '')''))"
| "get_prop v k = Inr (read_prop v k)"

text \<open>Truthiness of an optional string (\<open>undefined\<close> and the empty string are falsy).\<close>

fun truthy_str :: "string option \<Rightarrow> bool" where
  "truthy_str None = False"
| "truthy_str (Some s) = (s \<noteq> [])"

section \<open>DataPoint (models/data-point)\<close>

record DataPoint =
  deviceId :: jsval
  protocol :: jsval
  timestamp :: jsval
  parameters :: jsval
  experimentId :: jsval
  createdAt :: jsval

text \<open>
  The constructor. \<open>now_ts\<close> and \<open>now_created\<close> are the clock readings of the two
  \<open>new Date()\<close> defaults (each is used only when its option is falsy).
\<close>

definition new_DataPoint :: "int \<Rightarrow> int \<Rightarrow> jsval \<Rightarrow> error + DataPoint" where
  "new_DataPoint now_ts now_created options =
     (case get_prop options ''deviceId'' of
        Inl e \<Rightarrow> Inl e
      | Inr d \<Rightarrow>
          Inr \<lparr> deviceId = d,
                protocol = read_prop options ''protocol'',
                timestamp = js_or (read_prop options ''timestamp'') (JDate now_ts),
                parameters = js_or (read_prop options ''parameters'') (JObj []),
                experimentId = js_or (read_prop options ''experimentId'') Null,
                createdAt = js_or (read_prop options ''createdAt'') (JDate now_created) \<rparr>)"

definition toDatabase :: "DataPoint \<Rightarrow> jsval" where
  "toDatabase p =
     JObj [(''device_id'', deviceId p),
           (''protocol'', protocol p),
           (''timestamp'', timestamp p),
           (''parameters'', parameters p),
           (''experiment_id'', experimentId p),
           (''created_at'', createdAt p)]"

definition fromDatabase :: "int \<Rightarrow> int \<Rightarrow> jsval \<Rightarrow> error + DataPoint" where
  "fromDatabase now_ts now_created dbObject =
     (case get_prop dbObject ''device_id'' of
        Inl e \<Rightarrow> Inl e
      | Inr d \<Rightarrow>
          new_DataPoint now_ts now_created
            (JObj [(''deviceId'', d),
                   (''protocol'', read_prop dbObject ''protocol''),
                   (''timestamp'', read_prop dbObject ''timestamp''),
                   (''parameters'', read_prop dbObject ''parameters''),
                   (''experimentId'', read_prop dbObject ''experiment_id''),
                   (''createdAt'', read_prop dbObject ''created_at'')]))"

text \<open>
  \<open>toStandardFormat\<close> calls \<open>this.timestamp.toISOString()\<close>: defined on a Date, a
  TypeError on any other value. The ISO rendering \<open>toISOString\<close> of the Date built-in is a
  parameter.
\<close>

definition toStandardFormat :: "(int \<Rightarrow> string) \<Rightarrow> DataPoint \<Rightarrow> error + jsval" where
  "toStandardFormat toISOString p =
     (case timestamp p of
        JDate t \<Rightarrow>
          Inr (JObj [(''device_id'', deviceId p),
                     (''timestamp'', JStr (toISOString t)),
                     (''protocol'', protocol p),
                     (''parameters'', parameters p),
                     (''experiment_id'', experimentId p)])
      | Undefined \<Rightarrow> Inl (TypeError ''Cannot read properties of undefined (reading toISOString)'')
      | Null \<Rightarrow> Inl (TypeError ''Cannot read properties of null (reading toISOString)'')
      | _ \<Rightarrow> Inl (TypeError ''this.timestamp.toISOString is not a function''))"

section \<open>Devices, commands and observable effects\<close>

text \<open>
  A device record as the adapters read it. Optional properties are options; the field
  \<open>device_protocol\<close> is the source's \<open>device.protocol\<close> and \<open>sub_protocol\<close> is
  \<open>connection_details.protocol\<close>.
\<close>

record topics =
  data :: "string option"
  control :: "string option"

record details =
  mqtt_topics :: "topics option"
  websocket_url :: "string option"
  sub_protocol :: "string option"
  base_url :: "string option"
  health_endpoint :: "string option"
  data_endpoint :: "string option"
  polling_interval :: "nat option"

record device =
  device_id :: string
  device_protocol :: "string option"
  connection_details :: "details option"

record command =
  cmd_device_id :: string
  cmd_command :: string
  cmd_parameters :: jsval

text \<open>
  Calls that leave an adapter: the two callbacks supplied at construction and the
  requests made to the transport libraries. Each adapter appends them to its own log.
  \<open>OnConnection\<close> keeps the status and protocol of the event; HTTP request headers
  are not recorded.
\<close>

datatype effect =
    OnData DataPoint
  | OnConnection string string
  | MqttSubscribe nat string
  | MqttPublish nat string string
  | MqttEnd nat
  | WsConnect string "string option"
  | WsClose nat
  | HttpGet string

text \<open>A promise settles to \<open>Inr\<close> (resolved) or \<open>Inl\<close> (rejected).\<close>

type_synonym 'a promise = "error + 'a"

section \<open>MqttAdapter (adapters/mqtt-adapter)\<close>

text \<open>
  \<open>client\<close> is \<open>this.client\<close>: \<open>None\<close> is \<open>null\<close>, \<open>Some c\<close> the handle of a client
  made by \<open>mqtt.connect\<close>. \<open>mqtt_created\<close> counts the clients made so far (the next
  fresh handle) and \<open>mqtt_live\<close> lists those not yet ended; both describe the mqtt
  library's side, the adapter itself only holds \<open>client\<close>.
\<close>

record MqttAdapter =
  brokerUrl :: string
  client :: "nat option"
  subscriptions :: "(string \<times> string) list"
  mqtt_deviceMap :: "(string \<times> device) list"
  mqtt_created :: nat
  mqtt_live :: "nat list"
  mqtt_effects :: "effect list"

definition new_MqttAdapter :: "string \<Rightarrow> MqttAdapter" where
  "new_MqttAdapter url =
     \<lparr> brokerUrl = url, client = None, subscriptions = [], mqtt_deviceMap = [],
       mqtt_created = 0, mqtt_live = [], mqtt_effects = [] \<rparr>"

text \<open>
  What happens to one call of \<open>connect()\<close>: \<open>mqtt.connect\<close> throws, or returns a
  client on which the \<open>connect\<close> event fires first, or one on which the \<open>error\<close>
  event fires first.
\<close>

datatype connect_outcome =
    ConnectThrows error
  | ConnectEvent
  | ErrorEvent error

definition mqtt_connect :: "connect_outcome \<Rightarrow> MqttAdapter \<Rightarrow> unit promise \<times> MqttAdapter" where
  "mqtt_connect outcome a =
     (case outcome of
        ConnectThrows e \<Rightarrow> (Inl e, a)
      | ConnectEvent \<Rightarrow>
          (Inr (),
           a\<lparr> client := Some (mqtt_created a),
              mqtt_live := mqtt_live a @ [mqtt_created a],
              mqtt_created := Suc (mqtt_created a),
              mqtt_effects := mqtt_effects a @ [OnConnection ''connected'' ''MQTT''] \<rparr>)
      | ErrorEvent e \<Rightarrow>
          (Inl e,
           a\<lparr> client := Some (mqtt_created a),
              mqtt_live := mqtt_live a @ [mqtt_created a],
              mqtt_created := Suc (mqtt_created a),
              mqtt_effects := mqtt_effects a @ [OnConnection ''error'' ''MQTT''] \<rparr>))"

text \<open>
  The body of the \<open>message\<close> handler inside its \<open>try\<close>: \<open>Inl\<close> is an exception
  reaching the \<open>catch\<close>. \<open>JSON_parse\<close> is the built-in parser (\<open>None\<close>: it throws),
  \<open>now\<close> the clock at \<open>new Date()\<close> in the handler and \<open>now'\<close> the clock inside the
  DataPoint constructor.
\<close>

definition mqtt_message_try ::
  "(string \<Rightarrow> jsval option) \<Rightarrow> int \<Rightarrow> int \<Rightarrow> string \<Rightarrow> string \<Rightarrow> MqttAdapter \<Rightarrow> error + MqttAdapter" where
  "mqtt_message_try JSON_parse now now' topic message a =
     (case map_of (subscriptions a) topic of
        None \<Rightarrow> Inr a
      | Some d \<Rightarrow>
          if d = [] then Inr a
          else
            (case map_of (mqtt_deviceMap a) d of
               None \<Rightarrow> Inr a
             | Some dev \<Rightarrow>
                 (case JSON_parse message of
                    None \<Rightarrow> Inl (SyntaxError ''Unexpected token in JSON'')
                  | Some messageObj \<Rightarrow>
                      (case new_DataPoint now now'
                              (JObj [(''deviceId'', JStr d),
                                     (''protocol'', JStr ''MQTT''),
                                     (''timestamp'', JDate now),
                                     (''parameters'', messageObj)]) of
                         Inl e \<Rightarrow> Inl e
                       | Inr dataPoint \<Rightarrow>
                           Inr (a\<lparr> mqtt_effects := mqtt_effects a @ [OnData dataPoint] \<rparr>)))))"

text \<open>The handler: the \<open>catch\<close> logs the exception and returns.\<close>

definition mqtt_on_message ::
  "(string \<Rightarrow> jsval option) \<Rightarrow> int \<Rightarrow> int \<Rightarrow> string \<Rightarrow> string \<Rightarrow> MqttAdapter \<Rightarrow> MqttAdapter" where
  "mqtt_on_message JSON_parse now now' topic message a =
     (case mqtt_message_try JSON_parse now now' topic message a of
        Inl err \<Rightarrow> a
      | Inr a' \<Rightarrow> a')"

text \<open>
  \<open>registerDevice\<close>. The promise is resolved right after \<open>client.subscribe\<close> is
  called; the subscription itself is recorded later, by the subscribe callback.
\<close>

definition mqtt_registerDevice :: "device \<Rightarrow> MqttAdapter \<Rightarrow> unit promise \<times> MqttAdapter" where
  "mqtt_registerDevice dev a =
     (case connection_details dev of
        None \<Rightarrow> (Inl (Error ''MQTT topics not specified for device''), a)
      | Some cd \<Rightarrow>
          (case mqtt_topics cd of
             None \<Rightarrow> (Inl (Error ''MQTT topics not specified for device''), a)
           | Some t \<Rightarrow>
               (case data t of
                  None \<Rightarrow>
                    (Inr (),
                     a\<lparr> mqtt_deviceMap := AList.update (device_id dev) dev (mqtt_deviceMap a) \<rparr>)
                | Some dataTopic \<Rightarrow>
                    if dataTopic = [] then
                      (Inr (),
                       a\<lparr> mqtt_deviceMap := AList.update (device_id dev) dev (mqtt_deviceMap a) \<rparr>)
                    else
                      (case client a of
                         None \<Rightarrow>
                           (Inl (TypeError ''Cannot read properties of null (reading subscribe)''), a)
                       | Some c \<Rightarrow>
                           (Inr (),
                            a\<lparr> mqtt_deviceMap := AList.update (device_id dev) dev (mqtt_deviceMap a),
                               mqtt_effects := mqtt_effects a @ [MqttSubscribe c dataTopic] \<rparr>)))))"

text \<open>The callback of \<open>client.subscribe(dataTopic, ...)\<close> for device \<open>d\<close>; with an
  error it only logs (the promise is already resolved).\<close>

definition mqtt_subscribe_callback :: "error option \<Rightarrow> string \<Rightarrow> string \<Rightarrow> MqttAdapter \<Rightarrow> MqttAdapter" where
  "mqtt_subscribe_callback err dataTopic d a =
     (case err of
        Some e \<Rightarrow> a
      | None \<Rightarrow> a\<lparr> subscriptions := AList.update dataTopic d (subscriptions a) \<rparr>)"

text \<open>
  \<open>sendCommand\<close>. \<open>JSON_stringify\<close> is the built-in serialiser; \<open>publish_err\<close> is what
  the publish callback receives.
\<close>

definition command_message :: "command \<Rightarrow> jsval" where
  "command_message cmd =
     JObj [(''command'', JStr (cmd_command cmd)),
           (''parameters'', js_or (cmd_parameters cmd) (JObj []))]"

definition mqtt_sendCommand ::
  "(jsval \<Rightarrow> string) \<Rightarrow> error option \<Rightarrow> command \<Rightarrow> MqttAdapter \<Rightarrow> unit promise \<times> MqttAdapter" where
  "mqtt_sendCommand JSON_stringify publish_err cmd a =
     (case map_of (mqtt_deviceMap a) (cmd_device_id cmd) of
        None \<Rightarrow> (Inl (Error (''Device not found: '' @ cmd_device_id cmd)), a)
      | Some dev \<Rightarrow>
          (case connection_details dev of
             None \<Rightarrow> (Inl (TypeError ''Cannot read properties of undefined (reading mqtt_topics)''), a)
           | Some cd \<Rightarrow>
               (case mqtt_topics cd of
                  None \<Rightarrow> (Inl (TypeError ''Cannot destructure property control of undefined''), a)
                | Some t \<Rightarrow>
                    (case control t of
                       None \<Rightarrow>
                         (Inl (Error (''Control topic not specified for device: '' @ cmd_device_id cmd)), a)
                     | Some controlTopic \<Rightarrow>
                         if controlTopic = [] then
                           (Inl (Error (''Control topic not specified for device: '' @ cmd_device_id cmd)), a)
                         else
                           (case client a of
                              None \<Rightarrow>
                                (Inl (TypeError ''Cannot read properties of null (reading publish)''), a)
                            | Some c \<Rightarrow>
                                (case publish_err of Some e \<Rightarrow> Inl e | None \<Rightarrow> Inr (),
                                 a\<lparr> mqtt_effects := mqtt_effects a @
                                      [MqttPublish c controlTopic
                                         (JSON_stringify (command_message cmd))] \<rparr>))))))"

text \<open>\<open>disconnect\<close>: ends the current client, if any, and clears the subscriptions;
  the device map is kept.\<close>

definition mqtt_disconnect :: "MqttAdapter \<Rightarrow> unit promise \<times> MqttAdapter" where
  "mqtt_disconnect a =
     (case client a of
        None \<Rightarrow> (Inr (), a)
      | Some c \<Rightarrow>
          (Inr (),
           a\<lparr> client := None,
              subscriptions := [],
              mqtt_live := removeAll c (mqtt_live a),
              mqtt_effects := mqtt_effects a @ [MqttEnd c, OnConnection ''disconnected'' ''MQTT''] \<rparr>))"

section \<open>WebSocketAdapter (adapters/websocket-adapter)\<close>

text \<open>
  A connection is the object the websocket client hands to the \<open>connect\<close> handler.
  The adapter never assigns to it; it only reads its \<open>url\<close> property, so what the
  adapter sees of a connection is whatever that read gives (\<open>undefined\<close> when the
  object has no such property). \<open>connections\<close> is the Map filled by
  \<open>connections.set(connection.url, connection)\<close>: its keys are the values read
  from \<open>connection.url\<close>, its values the handles of the stored connections.
  \<open>ws_opened\<close> counts the connections the client has delivered so far (the next fresh
  handle); it belongs to the websocket library's side.
\<close>

record WebSocketAdapter =
  connections :: "(jsval \<times> nat) list"
  ws_deviceMap :: "(string \<times> device) list"
  ws_opened :: nat
  ws_effects :: "effect list"

definition new_WebSocketAdapter :: WebSocketAdapter where
  "new_WebSocketAdapter =
     \<lparr> connections = [], ws_deviceMap = [], ws_opened = 0, ws_effects = [] \<rparr>"

text \<open>An optional string property as a JavaScript value.\<close>

fun js_string :: "string option \<Rightarrow> jsval" where
  "js_string None = Undefined"
| "js_string (Some s) = JStr s"

text \<open>\<open>findDeviceIdByUrl(url)\<close>: the first device, in insertion order, whose
  \<open>websocket_url\<close> is strictly equal to \<open>url\<close>; \<open>Inr None\<close> is \<open>null\<close>.\<close>

fun findDeviceIdByUrl :: "jsval \<Rightarrow> (string \<times> device) list \<Rightarrow> error + string option" where
  "findDeviceIdByUrl url [] = Inr None"
| "findDeviceIdByUrl url ((devId, dev) # entries) =
     (case connection_details dev of
        None \<Rightarrow> Inl (TypeError ''Cannot read properties of undefined (reading websocket_url)'')
      | Some cd \<Rightarrow>
          if js_string (websocket_url cd) = url then Inr (Some devId)
          else findDeviceIdByUrl url entries)"

text \<open>The client's \<open>connect\<close> event delivering \<open>connection\<close>: the connection is
  stored under the value of \<open>connection.url\<close>.\<close>

definition ws_on_connect :: "jsval \<Rightarrow> WebSocketAdapter \<Rightarrow> WebSocketAdapter" where
  "ws_on_connect connection a =
     a\<lparr> connections := AList.update (read_prop connection ''url'') (ws_opened a) (connections a),
        ws_opened := Suc (ws_opened a),
        ws_effects := ws_effects a @ [OnConnection ''connected'' ''WebSocket''] \<rparr>"

datatype ws_message = Utf8 string | Binary

definition ws_message_try ::
  "(string \<Rightarrow> jsval option) \<Rightarrow> int \<Rightarrow> int \<Rightarrow> jsval \<Rightarrow> string \<Rightarrow> WebSocketAdapter \<Rightarrow> error + WebSocketAdapter" where
  "ws_message_try JSON_parse now now' connection utf8Data a =
     (case JSON_parse utf8Data of
        None \<Rightarrow> Inl (SyntaxError ''Unexpected token in JSON'')
      | Some d \<Rightarrow>
          (case findDeviceIdByUrl (read_prop connection ''url'') (ws_deviceMap a) of
             Inl e \<Rightarrow> Inl e
           | Inr None \<Rightarrow> Inr a
           | Inr (Some devId) \<Rightarrow>
               if devId = [] then Inr a
               else
                 (case new_DataPoint now now'
                         (JObj [(''deviceId'', JStr devId),
                                (''protocol'', JStr ''WebSocket''),
                                (''timestamp'', JDate now),
                                (''parameters'', d)]) of
                    Inl e \<Rightarrow> Inl e
                  | Inr dataPoint \<Rightarrow>
                      Inr (a\<lparr> ws_effects := ws_effects a @ [OnData dataPoint] \<rparr>))))"

text \<open>The \<open>message\<close> handler registered on \<open>connection\<close>.\<close>

definition ws_on_message ::
  "(string \<Rightarrow> jsval option) \<Rightarrow> int \<Rightarrow> int \<Rightarrow> jsval \<Rightarrow> ws_message \<Rightarrow> WebSocketAdapter \<Rightarrow> WebSocketAdapter" where
  "ws_on_message JSON_parse now now' connection message a =
     (case message of
        Binary \<Rightarrow> a
      | Utf8 utf8Data \<Rightarrow>
          (case ws_message_try JSON_parse now now' connection utf8Data a of
             Inl err \<Rightarrow> a
           | Inr a' \<Rightarrow> a'))"

definition ws_registerDevice :: "device \<Rightarrow> WebSocketAdapter \<Rightarrow> unit promise \<times> WebSocketAdapter" where
  "ws_registerDevice dev a =
     (case connection_details dev of
        None \<Rightarrow> (Inl (Error ''WebSocket URL not specified for device''), a)
      | Some cd \<Rightarrow>
          (case websocket_url cd of
             None \<Rightarrow> (Inl (Error ''WebSocket URL not specified for device''), a)
           | Some url \<Rightarrow>
               if url = [] then (Inl (Error ''WebSocket URL not specified for device''), a)
               else if map_of (connections a) (JStr url) = None then
                 (Inr (),
                  a\<lparr> ws_deviceMap := AList.update (device_id dev) dev (ws_deviceMap a),
                     ws_effects := ws_effects a @ [WsConnect url (sub_protocol cd)] \<rparr>)
               else
                 (Inr (),
                  a\<lparr> ws_deviceMap := AList.update (device_id dev) dev (ws_deviceMap a) \<rparr>)))"

text \<open>\<open>disconnect(deviceId)\<close>; a falsy \<open>deviceId\<close> disconnects everything.\<close>

definition ws_disconnect_all :: "WebSocketAdapter \<Rightarrow> WebSocketAdapter" where
  "ws_disconnect_all a =
     a\<lparr> connections := [],
        ws_deviceMap := [],
        ws_effects := ws_effects a @ map (\<lambda>(url, c). WsClose c) (connections a) \<rparr>"

definition ws_disconnect_device :: "string \<Rightarrow> WebSocketAdapter \<Rightarrow> unit promise \<times> WebSocketAdapter" where
  "ws_disconnect_device devId a =
     (case map_of (ws_deviceMap a) devId of
        None \<Rightarrow> (Inr (), a)
      | Some dev \<Rightarrow>
          (case connection_details dev of
             None \<Rightarrow> (Inl (TypeError ''Cannot read properties of undefined (reading websocket_url)''), a)
           | Some cd \<Rightarrow>
               (case websocket_url cd of
                  None \<Rightarrow> (Inr (), a)
                | Some url \<Rightarrow>
                    if url = [] then (Inr (), a)
                    else
                      (case map_of (connections a) (JStr url) of
                         None \<Rightarrow>
                           (Inr (), a\<lparr> ws_deviceMap := AList.delete devId (ws_deviceMap a) \<rparr>)
                       | Some c \<Rightarrow>
                           (Inr (),
                            a\<lparr> connections := AList.delete (JStr url) (connections a),
                               ws_deviceMap := AList.delete devId (ws_deviceMap a),
                               ws_effects := ws_effects a @ [WsClose c] \<rparr>)))))"

definition ws_disconnect :: "string option \<Rightarrow> WebSocketAdapter \<Rightarrow> unit promise \<times> WebSocketAdapter" where
  "ws_disconnect devId a =
     (case devId of
        None \<Rightarrow> (Inr (), ws_disconnect_all a)
      | Some d \<Rightarrow> if d = [] then (Inr (), ws_disconnect_all a) else ws_disconnect_device d a)"

section \<open>RestAdapter (adapters/rest-adapter)\<close>

text \<open>
  \<open>pollingIntervals\<close> maps a device id to the handle \<open>setInterval\<close> returned.
  The remaining fields describe the runtime around the adapter: \<open>timers\<close> are the
  interval timers currently armed (handle, the \<open>deviceId\<close> and the URL their
  closure captured), \<open>next_timer\<close> the next fresh handle, \<open>inflight\<close> the device ids
  of poll requests sent and not yet settled, \<open>pending_tests\<close> the devices whose health
  check is sent and not yet settled.
\<close>

record RestAdapter =
  rest_deviceMap :: "(string \<times> device) list"
  pollingIntervals :: "(string \<times> nat) list"
  timers :: "(nat \<times> string \<times> string) list"
  next_timer :: nat
  inflight :: "string list"
  pending_tests :: "device list"
  rest_effects :: "effect list"

definition new_RestAdapter :: RestAdapter where
  "new_RestAdapter =
     \<lparr> rest_deviceMap = [], pollingIntervals = [], timers = [], next_timer = 0,
       inflight = [], pending_tests = [], rest_effects = [] \<rparr>"

text \<open>An endpoint with its destructuring default.\<close>

definition endpoint_or :: "string option \<Rightarrow> string \<Rightarrow> string" where
  "endpoint_or ep dflt = (case ep of None \<Rightarrow> dflt | Some e \<Rightarrow> e)"

text \<open>\<open>stopPolling\<close>: \<open>clearInterval\<close> disarms the timer with that handle (a handle is
  an object, hence truthy).\<close>

definition stopPolling :: "string \<Rightarrow> RestAdapter \<Rightarrow> RestAdapter" where
  "stopPolling devId a =
     (case map_of (pollingIntervals a) devId of
        None \<Rightarrow> a
      | Some intervalId \<Rightarrow>
          a\<lparr> timers := filter (\<lambda>t. fst t \<noteq> intervalId) (timers a),
             pollingIntervals := AList.delete devId (pollingIntervals a) \<rparr>)"

definition startPolling :: "string \<Rightarrow> nat \<Rightarrow> RestAdapter \<Rightarrow> (error + unit) \<times> RestAdapter" where
  "startPolling devId interval a =
     (let a1 = stopPolling devId a in
      case map_of (rest_deviceMap a1) devId of
        None \<Rightarrow> (Inr (), a1)
      | Some dev \<Rightarrow>
          (case connection_details dev of
             None \<Rightarrow> (Inl (TypeError ''Cannot destructure property base_url of undefined''), a1)
           | Some cd \<Rightarrow>
               (Inr (),
                a1\<lparr> timers := timers a1 @
                       [(next_timer a1, devId,
                         endpoint_or (base_url cd) ''undefined'' @ endpoint_or (data_endpoint cd) ''/data'')],
                    pollingIntervals := AList.update devId (next_timer a1) (pollingIntervals a1),
                    next_timer := Suc (next_timer a1) \<rparr>)))"

text \<open>The synchronous part of \<open>registerDevice\<close>, up to the health request;
  \<open>Inl\<close> is the rejection for a missing base URL.\<close>

definition rest_registerDevice_sync :: "device \<Rightarrow> RestAdapter \<Rightarrow> error + RestAdapter" where
  "rest_registerDevice_sync dev a =
     (case connection_details dev of
        None \<Rightarrow> Inl (Error ''REST base URL not specified for device'')
      | Some cd \<Rightarrow>
          (case base_url cd of
             None \<Rightarrow> Inl (Error ''REST base URL not specified for device'')
           | Some url \<Rightarrow>
               if url = [] then Inl (Error ''REST base URL not specified for device'')
               else
                 Inr (a\<lparr> rest_deviceMap := AList.update (device_id dev) dev (rest_deviceMap a),
                         pending_tests := pending_tests a @ [dev],
                         rest_effects := rest_effects a @
                           [HttpGet (url @ endpoint_or (health_endpoint cd) ''/health'')] \<rparr>)))"

text \<open>The health request of \<open>dev\<close> settles (\<open>Some e\<close>: it failed): the connection
  callback fires and, on success, polling starts if an interval was given. The result
  is how the promise of \<open>registerDevice\<close> settles.\<close>

definition rest_testConnection_settled ::
  "error option \<Rightarrow> device \<Rightarrow> RestAdapter \<Rightarrow> unit promise \<times> RestAdapter" where
  "rest_testConnection_settled failure dev a =
     (case failure of
        Some e \<Rightarrow>
          (Inl e,
           a\<lparr> pending_tests := remove1 dev (pending_tests a),
              rest_effects := rest_effects a @ [OnConnection ''error'' ''REST''] \<rparr>)
      | None \<Rightarrow>
          (let a1 = a\<lparr> pending_tests := remove1 dev (pending_tests a),
                       rest_effects := rest_effects a @ [OnConnection ''connected'' ''REST''] \<rparr>
           in case connection_details dev of
                None \<Rightarrow> (Inr (), a1)
              | Some cd \<Rightarrow>
                  (case polling_interval cd of
                     None \<Rightarrow> (Inr (), a1)
                   | Some interval \<Rightarrow>
                       if interval = 0 then (Inr (), a1)
                       else startPolling (device_id dev) interval a1)))"

text \<open>\<open>registerDevice\<close> as an awaiting caller sees it, the health request settling
  before anything else happens.\<close>

definition rest_registerDevice :: "error option \<Rightarrow> device \<Rightarrow> RestAdapter \<Rightarrow> unit promise \<times> RestAdapter" where
  "rest_registerDevice failure dev a =
     (case rest_registerDevice_sync dev a of
        Inl e \<Rightarrow> (Inl e, a)
      | Inr a1 \<Rightarrow> rest_testConnection_settled failure dev a1)"

text \<open>An armed interval timer fires: its callback sends the poll request.\<close>

definition rest_timer_fired :: "nat \<Rightarrow> RestAdapter \<Rightarrow> RestAdapter" where
  "rest_timer_fired h a =
     (case map_of (timers a) h of
        None \<Rightarrow> a
      | Some (devId, url) \<Rightarrow>
          a\<lparr> inflight := inflight a @ [devId],
             rest_effects := rest_effects a @ [HttpGet url] \<rparr>)"

text \<open>A poll request sent for \<open>deviceId\<close> settles: with a response body the
  DataPoint is built and handed to the data callback, with a failure it is logged.\<close>

definition rest_poll_settled :: "int \<Rightarrow> int \<Rightarrow> string \<Rightarrow> jsval option \<Rightarrow> RestAdapter \<Rightarrow> RestAdapter" where
  "rest_poll_settled now now' devId response a =
     (if devId \<notin> set (inflight a) then a
      else
        (case response of
           None \<Rightarrow> a\<lparr> inflight := remove1 devId (inflight a) \<rparr>
         | Some d \<Rightarrow>
             (case new_DataPoint now now'
                     (JObj [(''deviceId'', JStr devId),
                            (''protocol'', JStr ''REST''),
                            (''timestamp'', JDate now),
                            (''parameters'', d)]) of
                Inl e \<Rightarrow> a\<lparr> inflight := remove1 devId (inflight a) \<rparr>
              | Inr dataPoint \<Rightarrow>
                  a\<lparr> inflight := remove1 devId (inflight a),
                     rest_effects := rest_effects a @ [OnData dataPoint] \<rparr>)))"

text \<open>\<open>disconnect(deviceId)\<close>: synchronous, returns nothing.\<close>

definition rest_disconnect_all :: "RestAdapter \<Rightarrow> RestAdapter" where
  "rest_disconnect_all a =
     (fold stopPolling (map fst (pollingIntervals a)) a)\<lparr> rest_deviceMap := [] \<rparr>"

definition rest_disconnect :: "string option \<Rightarrow> RestAdapter \<Rightarrow> RestAdapter" where
  "rest_disconnect devId a =
     (case devId of
        None \<Rightarrow> rest_disconnect_all a
      | Some d \<Rightarrow>
          if d = [] then rest_disconnect_all a
          else (stopPolling d a)\<lparr> rest_deviceMap := AList.delete d (rest_deviceMap a) \<rparr>)"

text \<open>Everything that can happen to a RestAdapter, one event at a time.\<close>

datatype rest_event =
    RegisterDevice device
  | HealthSettled device "error option"
  | TimerFired nat
  | PollSettled int int string "jsval option"
  | Disconnect "string option"

fun rest_step :: "rest_event \<Rightarrow> RestAdapter \<Rightarrow> RestAdapter" where
  "rest_step (RegisterDevice dev) a =
     (case rest_registerDevice_sync dev a of Inl e \<Rightarrow> a | Inr a1 \<Rightarrow> a1)"
| "rest_step (HealthSettled dev failure) a =
     (if dev \<in> set (pending_tests a) then snd (rest_testConnection_settled failure dev a) else a)"
| "rest_step (TimerFired h) a = rest_timer_fired h a"
| "rest_step (PollSettled now now' devId response) a = rest_poll_settled now now' devId response a"
| "rest_step (Disconnect devId) a = rest_disconnect devId a"

definition rest_run :: "rest_event list \<Rightarrow> RestAdapter \<Rightarrow> RestAdapter" where
  "rest_run events a = fold rest_step events a"

section \<open>AdapterManager (core/adapter-manager)\<close>

datatype adapter =
    Mqtt MqttAdapter
  | WebSocket WebSocketAdapter
  | Rest RestAdapter

text \<open>\<open>adapters\<close> is the Map from protocol name to adapter, in insertion order;
  \<open>deviceAdapterMap\<close> is the routing table from device id to protocol name.\<close>

record AdapterManager =
  adapters :: "(string \<times> adapter) list"
  deviceAdapterMap :: "(string \<times> string) list"

text \<open>The constructor options: \<open>mqttOptions\<close> carries the broker URL when given, the
  other two are either given or not.\<close>

record manager_options =
  mqttOptions :: "string option"
  webSocketOptions :: bool
  restOptions :: bool

definition initializeAdapters :: "manager_options \<Rightarrow> (string \<times> adapter) list" where
  "initializeAdapters opts =
     (case mqttOptions opts of None \<Rightarrow> [] | Some url \<Rightarrow> [(''MQTT'', Mqtt (new_MqttAdapter url))])
     @ (if webSocketOptions opts then [(''WebSocket'', WebSocket new_WebSocketAdapter)] else [])
     @ (if restOptions opts then [(''REST'', Rest new_RestAdapter)] else [])"

definition new_AdapterManager :: "manager_options \<Rightarrow> AdapterManager" where
  "new_AdapterManager opts = \<lparr> adapters = initializeAdapters opts, deviceAdapterMap = [] \<rparr>"

text \<open>\<open>connect()\<close>: only adapters that have a \<open>connect\<close> method are connected, and a
  rejection is caught and logged. Of the three adapters only MqttAdapter has one.\<close>

fun adapter_connect :: "connect_outcome \<Rightarrow> adapter \<Rightarrow> adapter" where
  "adapter_connect outcome (Mqtt a) = Mqtt (snd (mqtt_connect outcome a))"
| "adapter_connect outcome (WebSocket a) = WebSocket a"
| "adapter_connect outcome (Rest a) = Rest a"

definition manager_connect :: "connect_outcome \<Rightarrow> AdapterManager \<Rightarrow> AdapterManager" where
  "manager_connect outcome m =
     m\<lparr> adapters := map (\<lambda>(p, ad). (p, adapter_connect outcome ad)) (adapters m) \<rparr>"

text \<open>The adapter-level \<open>registerDevice\<close>; \<open>health\<close> is the outcome of the REST health
  request (unused by the other two).\<close>

fun adapter_registerDevice :: "error option \<Rightarrow> device \<Rightarrow> adapter \<Rightarrow> unit promise \<times> adapter" where
  "adapter_registerDevice health dev (Mqtt a) =
     (case mqtt_registerDevice dev a of (r, a') \<Rightarrow> (r, Mqtt a'))"
| "adapter_registerDevice health dev (WebSocket a) =
     (case ws_registerDevice dev a of (r, a') \<Rightarrow> (r, WebSocket a'))"
| "adapter_registerDevice health dev (Rest a) =
     (case rest_registerDevice health dev a of (r, a') \<Rightarrow> (r, Rest a'))"

definition manager_registerDevice ::
  "error option \<Rightarrow> device \<Rightarrow> AdapterManager \<Rightarrow> unit promise \<times> AdapterManager" where
  "manager_registerDevice health dev m =
     (case device_protocol dev of
        None \<Rightarrow> (Inl (Error ''Protocol not specified for device''), m)
      | Some p \<Rightarrow>
          if p = [] then (Inl (Error ''Protocol not specified for device''), m)
          else
            (case map_of (adapters m) p of
               None \<Rightarrow> (Inl (Error (''No adapter available for protocol: '' @ p)), m)
             | Some ad \<Rightarrow>
                 (case adapter_registerDevice health dev ad of
                    (Inl e, ad') \<Rightarrow> (Inl e, m\<lparr> adapters := AList.update p ad' (adapters m) \<rparr>)
                  | (Inr u, ad') \<Rightarrow>
                      (Inr (),
                       m\<lparr> adapters := AList.update p ad' (adapters m),
                          deviceAdapterMap :=
                            AList.update (device_id dev) p (deviceAdapterMap m) \<rparr>))))"

text \<open>
  What \<open>adapter.disconnect()\<close> returns: \<open>Some\<close> of a promise, or \<open>None\<close> when the
  method returns nothing (\<open>undefined\<close>). MqttAdapter and WebSocketAdapter return a
  promise; RestAdapter's \<open>disconnect\<close> is a plain method without a return value.
\<close>

fun adapter_disconnect :: "adapter \<Rightarrow> unit promise option \<times> adapter" where
  "adapter_disconnect (Mqtt a) = (case mqtt_disconnect a of (r, a') \<Rightarrow> (Some r, Mqtt a'))"
| "adapter_disconnect (WebSocket a) = (case ws_disconnect None a of (r, a') \<Rightarrow> (Some r, WebSocket a'))"
| "adapter_disconnect (Rest a) = (None, Rest (rest_disconnect None a))"

text \<open>
  The loop of \<open>disconnect()\<close> over the adapters. \<open>adapter.disconnect().catch(...)\<close>
  turns a rejected promise into a resolved one; when \<open>disconnect()\<close> returned
  \<open>undefined\<close>, reading \<open>.catch\<close> throws a TypeError, which leaves the loop and the
  method. The first component is that exception, if any.
\<close>

fun disconnect_loop :: "(string \<times> adapter) list \<Rightarrow> error option \<times> (string \<times> adapter) list" where
  "disconnect_loop [] = (None, [])"
| "disconnect_loop ((p, ad) # rest) =
     (case adapter_disconnect ad of
        (None, ad') \<Rightarrow>
          (Some (TypeError ''Cannot read properties of undefined (reading catch)''), (p, ad') # rest)
      | (Some r, ad') \<Rightarrow>
          (case disconnect_loop rest of (e, rest') \<Rightarrow> (e, (p, ad') # rest')))"

definition manager_disconnect :: "AdapterManager \<Rightarrow> unit promise \<times> AdapterManager" where
  "manager_disconnect m =
     (case disconnect_loop (adapters m) of
        (Some e, ads) \<Rightarrow> (Inl e, m\<lparr> adapters := ads \<rparr>)
      | (None, ads) \<Rightarrow> (Inr (), m\<lparr> adapters := ads, deviceAdapterMap := [] \<rparr>))"

text \<open>The device map an adapter keeps internally.\<close>

fun adapter_deviceMap :: "adapter \<Rightarrow> (string \<times> device) list" where
  "adapter_deviceMap (Mqtt a) = mqtt_deviceMap a"
| "adapter_deviceMap (WebSocket a) = ws_deviceMap a"
| "adapter_deviceMap (Rest a) = rest_deviceMap a"

section \<open>Observing a RestAdapter\<close>

text \<open>
  \<open>deliveries d\<close> counts the data-callback invocations for device \<open>d\<close> so far and
  \<open>timers_of d\<close> lists the armed timers polling \<open>d\<close>. \<open>registers d\<close> holds of
  the events that register \<open>d\<close>. \<open>timers_recorded\<close> says that every armed timer is
  the one recorded in \<open>pollingIntervals\<close> for its device; \<open>quiet d\<close> that,
  moreover, \<open>d\<close> is neither registered nor polled; \<open>pending_load d\<close> adds the
  deliveries for \<open>d\<close> to its poll requests still in flight.
\<close>

fun is_data_for :: "string \<Rightarrow> effect \<Rightarrow> bool" where
  "is_data_for d (OnData p) = (deviceId p = JStr d)"
| "is_data_for d e = False"

definition deliveries :: "string \<Rightarrow> RestAdapter \<Rightarrow> nat" where
  "deliveries d a = length (filter (is_data_for d) (rest_effects a))"

definition timers_of :: "string \<Rightarrow> RestAdapter \<Rightarrow> (nat \<times> string \<times> string) list" where
  "timers_of d a = filter (\<lambda>t. fst (snd t) = d) (timers a)"

fun registers :: "string \<Rightarrow> rest_event \<Rightarrow> bool" where
  "registers d (RegisterDevice dev) = (device_id dev = d)"
| "registers d ev = False"

definition timers_recorded :: "RestAdapter \<Rightarrow> bool" where
  "timers_recorded a =
     (\<forall>t \<in> set (timers a). map_of (pollingIntervals a) (fst (snd t)) = Some (fst t))"

definition quiet :: "string \<Rightarrow> RestAdapter \<Rightarrow> bool" where
  "quiet d a =
     (timers_recorded a \<and> map_of (rest_deviceMap a) d = None
      \<and> map_of (pollingIntervals a) d = None)"

definition pending_load :: "string \<Rightarrow> RestAdapter \<Rightarrow> nat" where
  "pending_load d a = deliveries d a + count_list (inflight a) d"

text \<open>Every device in a WebSocketAdapter's device map has a \<open>websocket_url\<close>.\<close>

definition ws_devices_have_url :: "WebSocketAdapter \<Rightarrow> bool" where
  "ws_devices_have_url a =
     (\<forall>x \<in> set (ws_deviceMap a).
        \<exists>cd u. connection_details (snd x) = Some cd \<and> websocket_url cd = Some u)"

section \<open>Sample devices, codecs and states\<close>

text \<open>Concrete inputs on which the properties below are instantiated.\<close>

definition no_details :: details where
  "no_details =
     \<lparr> mqtt_topics = None, websocket_url = None, sub_protocol = None, base_url = None,
       health_endpoint = None, data_endpoint = None, polling_interval = None \<rparr>"

definition sample_parse :: "string \<Rightarrow> jsval option" where
  "sample_parse s =
     (if s = ''{\"temperature\": 20.5}'' then Some (JObj [(''temperature'', JNum (41/2))])
      else if s = ''{\"command\":\"setTemperature\",\"parameters\":{\"target\":40}}''
      then Some (JObj [(''command'', JStr ''setTemperature''),
                       (''parameters'', JObj [(''target'', JNum 40)])])
      else None)"

definition sample_stringify :: "jsval \<Rightarrow> string" where
  "sample_stringify v =
     (if v = JObj [(''command'', JStr ''setTemperature''),
                   (''parameters'', JObj [(''target'', JNum 40)])]
      then ''{\"command\":\"setTemperature\",\"parameters\":{\"target\":40}}''
      else ''null'')"

definition sample_toISOString :: "int \<Rightarrow> string" where
  "sample_toISOString t = ''1970-01-01T00:00:01.000Z''"

definition sample_dev1 :: device where
  "sample_dev1 =
     \<lparr> device_id = ''dev-1'', device_protocol = Some ''MQTT'',
       connection_details = Some (no_details\<lparr> mqtt_topics :=
         Some \<lparr> data = Some ''lab/dev-1/data'', control = Some ''lab/dev-1/control'' \<rparr> \<rparr>) \<rparr>"

definition sample_mqtt_registered :: MqttAdapter where
  "sample_mqtt_registered =
     mqtt_subscribe_callback None ''lab/dev-1/data'' ''dev-1''
       (snd (mqtt_registerDevice sample_dev1
          (snd (mqtt_connect ConnectEvent (new_MqttAdapter ''mqtt://localhost:1883'')))))"

definition sample_tc100 :: device where
  "sample_tc100 =
     \<lparr> device_id = ''tc-100'', device_protocol = Some ''MQTT'',
       connection_details = Some (no_details\<lparr> mqtt_topics :=
         Some \<lparr> data = None, control = Some ''lab/tc-100/control'' \<rparr> \<rparr>) \<rparr>"

definition sample_setTemperature :: command where
  "sample_setTemperature =
     \<lparr> cmd_device_id = ''tc-100'', cmd_command = ''setTemperature'',
       cmd_parameters = JObj [(''target'', JNum 40)] \<rparr>"

definition sample_mqtt_connected :: MqttAdapter where
  "sample_mqtt_connected = snd (mqtt_connect ConnectEvent (new_MqttAdapter ''mqtt://localhost:1883''))"

definition sample_ws1 :: device where
  "sample_ws1 =
     \<lparr> device_id = ''ws-1'', device_protocol = Some ''WebSocket'',
       connection_details = Some (no_details\<lparr> websocket_url := Some ''ws://lab:8080'' \<rparr>) \<rparr>"

definition sample_ws2 :: device where
  "sample_ws2 =
     \<lparr> device_id = ''ws-2'', device_protocol = Some ''WebSocket'',
       connection_details = Some (no_details\<lparr> websocket_url := Some ''ws://lab:8080'' \<rparr>) \<rparr>"

text \<open>A connection object without a \<open>url\<close> property: the websocket client's
  connections carry none, and the adapter assigns none.\<close>

definition sample_connection :: jsval where
  "sample_connection =
     JObj [(''connected'', JBool True), (''remoteAddress'', JStr ''10.0.0.5'')]"

definition sample_ws_registered :: WebSocketAdapter where
  "sample_ws_registered =
     ws_on_connect sample_connection (snd (ws_registerDevice sample_ws1 new_WebSocketAdapter))"

definition sample_pump1 :: device where
  "sample_pump1 =
     \<lparr> device_id = ''pump-1'', device_protocol = Some ''REST'',
       connection_details = Some (no_details\<lparr> base_url := Some ''http://x/api'',
                                                polling_interval := Some 1000 \<rparr>) \<rparr>"

definition sample_rest_manager :: AdapterManager where
  "sample_rest_manager =
     snd (manager_registerDevice None sample_pump1
            (manager_connect ConnectEvent
               (new_AdapterManager \<lparr> mqttOptions = Some ''mqtt://localhost:1883'',
                                      webSocketOptions = True, restOptions = True \<rparr>)))"

definition sample_two_manager :: AdapterManager where
  "sample_two_manager =
     snd (manager_registerDevice None sample_tc100
            (new_AdapterManager \<lparr> mqttOptions = Some ''mqtt://localhost:1883'',
                                   webSocketOptions = True, restOptions = False \<rparr>))"

definition sample_tc100_ws :: device where
  "sample_tc100_ws =
     \<lparr> device_id = ''tc-100'', device_protocol = Some ''WebSocket'',
       connection_details = Some (no_details\<lparr> websocket_url := Some ''ws://lab:8080'' \<rparr>) \<rparr>"

definition sample_history :: "rest_event list" where
  "sample_history =
     [RegisterDevice sample_pump1, HealthSettled sample_pump1 None, TimerFired 0]"

definition sample_reading :: jsval where
  "sample_reading = JObj [(''flow_rate'', JNum 5)]"

section \<open>Auxiliary facts\<close>

lemma js_or_Null: "js_or (js_or a Null) Null = js_or a Null"
  by (simp add: js_or_def)

lemma js_or_truthy: "truthy b \<Longrightarrow> js_or (js_or a b) c = js_or a b"
  by (simp add: js_or_def)

lemma map_of_update [simp]: "map_of (AList.update k v al) k' = (if k' = k then Some v else map_of al k')"
  by (simp add: update_conv')

section \<open>The registry: disconnect-all and registration\<close>

text \<open>Where every adapter's \<open>disconnect\<close> returns a promise, resolved or rejected,
  the loop runs to its end and the routing table is cleared.\<close>

lemma disconnect_loop_promises:
  "\<forall>x \<in> set ads. fst (adapter_disconnect (snd x)) \<noteq> None \<Longrightarrow>
   fst (disconnect_loop ads) = None"
  by (induction ads) (auto split: prod.splits option.splits)

lemma manager_disconnect_promises:
  assumes "\<forall>x \<in> set (adapters m). fst (adapter_disconnect (snd x)) \<noteq> None"
  shows "fst (manager_disconnect m) = Inr () \<and> deviceAdapterMap (snd (manager_disconnect m)) = []"
  using disconnect_loop_promises [OF assms]
  by (auto simp: manager_disconnect_def split: prod.splits option.splits)

text \<open>
  C1. After \<open>AdapterManager.disconnect\<close> the routing table should be empty whatever the
  adapters do. On a manager that has a REST adapter this fails: \<open>RestAdapter.disconnect\<close>
  returns no promise, so \<open>adapter.disconnect().catch(...)\<close> throws a TypeError, the
  method rejects, and \<open>deviceAdapterMap.clear()\<close> is never reached. With one polled
  device registered on a manager configured with all three adapters, as the device
  service configures it, the routing table still holds the entry after the call.
\<close>

theorem manager_disconnect_rest_keeps_routes:
  "map fst (adapters sample_rest_manager) = [''MQTT'', ''WebSocket'', ''REST'']
   \<and> deviceAdapterMap sample_rest_manager = [(''pump-1'', ''REST'')]
   \<and> fst (manager_disconnect sample_rest_manager)
       = Inl (TypeError ''Cannot read properties of undefined (reading catch)'')
   \<and> deviceAdapterMap (snd (manager_disconnect sample_rest_manager)) = [(''pump-1'', ''REST'')]"
  by (simp add: sample_rest_manager_def manager_disconnect_def manager_registerDevice_def
        manager_connect_def new_AdapterManager_def initializeAdapters_def sample_pump1_def
        no_details_def mqtt_connect_def mqtt_disconnect_def new_MqttAdapter_def
        ws_disconnect_def ws_disconnect_all_def new_WebSocketAdapter_def
        rest_registerDevice_def rest_registerDevice_sync_def rest_testConnection_settled_def
        startPolling_def stopPolling_def new_RestAdapter_def Let_def)

text \<open>
  C2. A failed \<open>AdapterManager.registerDevice\<close> leaves the routing table as it was,
  whether the failure is a missing protocol, a protocol without adapter, or a rejection
  by the adapter; and when the call succeeds, the adapter bound to the device's protocol
  accepted the device and the routing table gained exactly the entry from the device id
  to that protocol.
\<close>

theorem manager_registerDevice_atomic:
  assumes "manager_registerDevice health dev m = (r, m')"
  shows "case r of
           Inl e \<Rightarrow> deviceAdapterMap m' = deviceAdapterMap m
         | Inr u \<Rightarrow>
             (\<exists>p ad ad'. device_protocol dev = Some p \<and> map_of (adapters m) p = Some ad
                \<and> adapter_registerDevice health dev ad = (Inr (), ad')
                \<and> deviceAdapterMap m' = AList.update (device_id dev) p (deviceAdapterMap m))"
  using assms
  by (auto simp: manager_registerDevice_def split: option.splits if_splits prod.splits sum.splits)

theorem manager_registerDevice_atomic_witness:
  "fst (manager_registerDevice None sample_pump1 sample_two_manager)
     = Inl (Error ''No adapter available for protocol: REST'')
   \<and> deviceAdapterMap (snd (manager_registerDevice None sample_pump1 sample_two_manager))
     = deviceAdapterMap sample_two_manager
   \<and> fst (manager_registerDevice None sample_dev1 sample_two_manager)
     = Inl (TypeError ''Cannot read properties of null (reading subscribe)'')
   \<and> deviceAdapterMap (snd (manager_registerDevice None sample_dev1 sample_two_manager))
     = deviceAdapterMap sample_two_manager"
proof -
  have a: "map_of (adapters sample_two_manager) ''REST'' = None"
    by (simp add: sample_two_manager_def manager_registerDevice_def new_AdapterManager_def
          initializeAdapters_def sample_tc100_def no_details_def mqtt_registerDevice_def
          new_MqttAdapter_def)
  have b: "map_of (adapters sample_two_manager) ''MQTT''
           = Some (Mqtt ((new_MqttAdapter ''mqtt://localhost:1883'')
                \<lparr> mqtt_deviceMap := [(''tc-100'', sample_tc100)] \<rparr>))"
    by (simp add: sample_two_manager_def manager_registerDevice_def new_AdapterManager_def
          initializeAdapters_def sample_tc100_def no_details_def mqtt_registerDevice_def
          new_MqttAdapter_def)
  have f1: "fst (manager_registerDevice None sample_pump1 sample_two_manager)
           = Inl (Error ''No adapter available for protocol: REST'')"
    using a by (simp add: manager_registerDevice_def sample_pump1_def)
  have f2: "fst (manager_registerDevice None sample_dev1 sample_two_manager)
           = Inl (TypeError ''Cannot read properties of null (reading subscribe)'')"
    using b by (simp add: manager_registerDevice_def sample_dev1_def no_details_def
          mqtt_registerDevice_def new_MqttAdapter_def)
  have 1: "manager_registerDevice None sample_pump1 sample_two_manager
           = (Inl (Error ''No adapter available for protocol: REST''),
              snd (manager_registerDevice None sample_pump1 sample_two_manager))"
    using f1 by (simp add: prod_eq_iff)
  have 2: "manager_registerDevice None sample_dev1 sample_two_manager
           = (Inl (TypeError ''Cannot read properties of null (reading subscribe)''),
              snd (manager_registerDevice None sample_dev1 sample_two_manager))"
    using f2 by (simp add: prod_eq_iff)
  from manager_registerDevice_atomic [OF 1] manager_registerDevice_atomic [OF 2] f1 f2
  show ?thesis by simp
qed

text \<open>
  C3, as the code has it. Let a device id be routed to one protocol and be registered
  again under a different, non-empty protocol. If that protocol has no adapter the call
  is rejected and the manager is unchanged. If it has one, the call settles exactly as
  that adapter's \<open>registerDevice\<close> settles: when the adapter accepts, the call
  succeeds and the routing table is the old one with the device id mapped to the new
  protocol; when it rejects, the call is rejected and the routing table is unchanged.
  The outcome does not depend on the routing table at all, so the existing route is no
  ground for rejection; and the entry of the adapters map for the old protocol is left
  exactly as it was, so nothing is removed from the old adapter.
\<close>

theorem manager_reregister_other_transport:
  assumes "map_of (deviceAdapterMap m) (device_id dev) = Some p_old"
    and "device_protocol dev = Some p_new"
    and "p_new \<noteq> []"
    and "p_new \<noteq> p_old"
  shows "(map_of (adapters m) p_new = None \<longrightarrow>
            manager_registerDevice health dev m
              = (Inl (Error (''No adapter available for protocol: '' @ p_new)), m))
       \<and> (\<forall>ad r ad'. map_of (adapters m) p_new = Some ad \<longrightarrow>
            adapter_registerDevice health dev ad = (r, ad') \<longrightarrow>
            manager_registerDevice health dev m
              = (r, m\<lparr> adapters := AList.update p_new ad' (adapters m),
                       deviceAdapterMap :=
                         (case r of
                            Inl e \<Rightarrow> deviceAdapterMap m
                          | Inr u \<Rightarrow> AList.update (device_id dev) p_new (deviceAdapterMap m)) \<rparr>))
       \<and> fst (manager_registerDevice health dev (m\<lparr> deviceAdapterMap := table \<rparr>))
           = fst (manager_registerDevice health dev m)
       \<and> map_of (adapters (snd (manager_registerDevice health dev m))) p_old
           = map_of (adapters m) p_old"
proof -
  have none: "map_of (adapters m) p_new = None \<longrightarrow>
            manager_registerDevice health dev m
              = (Inl (Error (''No adapter available for protocol: '' @ p_new)), m)"
    using assms by (simp add: manager_registerDevice_def)
  have some: "\<forall>ad r ad'. map_of (adapters m) p_new = Some ad \<longrightarrow>
            adapter_registerDevice health dev ad = (r, ad') \<longrightarrow>
            manager_registerDevice health dev m
              = (r, m\<lparr> adapters := AList.update p_new ad' (adapters m),
                       deviceAdapterMap :=
                         (case r of
                            Inl e \<Rightarrow> deviceAdapterMap m
                          | Inr u \<Rightarrow> AList.update (device_id dev) p_new (deviceAdapterMap m)) \<rparr>)"
    using assms by (auto simp: manager_registerDevice_def split: sum.splits)
  have indep: "fst (manager_registerDevice health dev (m\<lparr> deviceAdapterMap := table \<rparr>))
           = fst (manager_registerDevice health dev m)"
    by (auto simp: manager_registerDevice_def split: option.splits prod.splits sum.splits)
  have old: "map_of (adapters (snd (manager_registerDevice health dev m))) p_old
           = map_of (adapters m) p_old"
    using assms
    by (auto simp: manager_registerDevice_def split: option.splits prod.splits sum.splits)
  show ?thesis using none some indep old by blast
qed

theorem manager_reregister_other_transport_witness:
  "manager_registerDevice None sample_tc100_ws sample_two_manager
     = (Inr (),
        sample_two_manager
          \<lparr> adapters := AList.update ''WebSocket''
               (WebSocket (snd (ws_registerDevice sample_tc100_ws new_WebSocketAdapter)))
               (adapters sample_two_manager),
            deviceAdapterMap :=
              AList.update ''tc-100'' ''WebSocket'' (deviceAdapterMap sample_two_manager) \<rparr>)
   \<and> fst (manager_registerDevice None sample_tc100_ws
            (sample_two_manager\<lparr> deviceAdapterMap := [] \<rparr>))
       = fst (manager_registerDevice None sample_tc100_ws sample_two_manager)
   \<and> map_of (adapters (snd (manager_registerDevice None sample_tc100_ws sample_two_manager)))
        ''MQTT''
       = map_of (adapters sample_two_manager) ''MQTT''"
proof -
  have 1: "map_of (deviceAdapterMap sample_two_manager) (device_id sample_tc100_ws) = Some ''MQTT''"
    by (simp add: sample_two_manager_def manager_registerDevice_def new_AdapterManager_def
          initializeAdapters_def sample_tc100_def no_details_def mqtt_registerDevice_def
          new_MqttAdapter_def sample_tc100_ws_def)
  have 2: "device_protocol sample_tc100_ws = Some ''WebSocket''"
    by (simp add: sample_tc100_ws_def)
  have 3: "''WebSocket'' \<noteq> []" by simp
  have 4: "''WebSocket'' \<noteq> ''MQTT''" by simp
  have 5: "map_of (adapters sample_two_manager) ''WebSocket'' = Some (WebSocket new_WebSocketAdapter)"
    by (simp add: sample_two_manager_def manager_registerDevice_def new_AdapterManager_def
          initializeAdapters_def sample_tc100_def no_details_def mqtt_registerDevice_def
          new_MqttAdapter_def)
  have 6: "adapter_registerDevice None sample_tc100_ws (WebSocket new_WebSocketAdapter)
           = (Inr (), WebSocket (snd (ws_registerDevice sample_tc100_ws new_WebSocketAdapter)))"
    by (simp add: ws_registerDevice_def sample_tc100_ws_def no_details_def
          new_WebSocketAdapter_def)
  from manager_reregister_other_transport [OF 1 2 3 4, of None "[]"] 5 6
  show ?thesis by (simp add: sample_tc100_ws_def)
qed

text \<open>
  C3, as claimed, fails: a device routed to MQTT and registered again under WebSocket is
  accepted, and afterwards both adapters hold it in their device maps.
\<close>

theorem manager_reregister_counterexample:
  "map_of (deviceAdapterMap sample_two_manager) ''tc-100'' = Some ''MQTT''
   \<and> fst (manager_registerDevice None sample_tc100_ws sample_two_manager) = Inr ()
   \<and> map_option adapter_deviceMap
        (map_of (adapters (snd (manager_registerDevice None sample_tc100_ws sample_two_manager)))
           ''MQTT'')
      = Some [(''tc-100'', sample_tc100)]
   \<and> map_option adapter_deviceMap
        (map_of (adapters (snd (manager_registerDevice None sample_tc100_ws sample_two_manager)))
           ''WebSocket'')
      = Some [(''tc-100'', sample_tc100_ws)]"
  by (simp add: sample_two_manager_def manager_registerDevice_def new_AdapterManager_def
        initializeAdapters_def sample_tc100_def no_details_def mqtt_registerDevice_def
        new_MqttAdapter_def sample_tc100_ws_def ws_registerDevice_def new_WebSocketAdapter_def)

section \<open>The MQTT adapter\<close>

text \<open>
  C4, as the code has it. A message that parses to \<open>{"temperature": 20.5}\<close>, arriving
  on a topic subscribed for the registered device \<open>dev-1\<close>, hands exactly one DataPoint
  to the data callback, and its standard format has \<open>parameters.temperature = 20.5\<close>,
  \<open>device_id = "dev-1"\<close> and \<open>protocol = "MQTT"\<close>, the adapter's own protocol name.
\<close>

theorem mqtt_message_standard_format:
  assumes "JSON_parse message = Some (JObj [(''temperature'', JNum (41/2))])"
    and "map_of (subscriptions a) topic = Some ''dev-1''"
    and "map_of (mqtt_deviceMap a) ''dev-1'' = Some dev"
  shows "mqtt_on_message JSON_parse now now' topic message a =
           a\<lparr> mqtt_effects := mqtt_effects a @
               [OnData \<lparr> deviceId = JStr ''dev-1'', protocol = JStr ''MQTT'',
                         timestamp = JDate now,
                         parameters = JObj [(''temperature'', JNum (41/2))],
                         experimentId = Null, createdAt = JDate now' \<rparr>] \<rparr>
       \<and> toStandardFormat toISOString
             \<lparr> deviceId = JStr ''dev-1'', protocol = JStr ''MQTT'', timestamp = JDate now,
               parameters = JObj [(''temperature'', JNum (41/2))],
               experimentId = Null, createdAt = JDate now' \<rparr>
           = Inr (JObj [(''device_id'', JStr ''dev-1''),
                        (''timestamp'', JStr (toISOString now)),
                        (''protocol'', JStr ''MQTT''),
                        (''parameters'', JObj [(''temperature'', JNum (41/2))]),
                        (''experiment_id'', Null)])"
  using assms
  by (simp add: mqtt_on_message_def mqtt_message_try_def new_DataPoint_def js_or_def
        toStandardFormat_def)

theorem mqtt_message_standard_format_witness:
  "mqtt_on_message sample_parse 1000 1001 ''lab/dev-1/data'' ''{\"temperature\": 20.5}''
       sample_mqtt_registered =
     sample_mqtt_registered\<lparr> mqtt_effects := mqtt_effects sample_mqtt_registered @
               [OnData \<lparr> deviceId = JStr ''dev-1'', protocol = JStr ''MQTT'',
                         timestamp = JDate 1000,
                         parameters = JObj [(''temperature'', JNum (41/2))],
                         experimentId = Null, createdAt = JDate 1001 \<rparr>] \<rparr>"
proof -
  have p: "sample_parse ''{\"temperature\": 20.5}'' = Some (JObj [(''temperature'', JNum (41/2))])"
    by (simp add: sample_parse_def)
  have s: "map_of (subscriptions sample_mqtt_registered) ''lab/dev-1/data'' = Some ''dev-1''"
    by (simp add: sample_mqtt_registered_def mqtt_subscribe_callback_def map_of_update)
  have d: "map_of (mqtt_deviceMap sample_mqtt_registered) ''dev-1'' = Some sample_dev1"
    by (simp add: sample_mqtt_registered_def mqtt_subscribe_callback_def mqtt_registerDevice_def
          sample_dev1_def no_details_def mqtt_connect_def new_MqttAdapter_def)
  from mqtt_message_standard_format
         [where JSON_parse = sample_parse and message = "''{\"temperature\": 20.5}''"
            and now = 1000 and now' = 1001, OF p s d]
  show ?thesis by simp
qed

text \<open>
  C4, as claimed, fails on the protocol field: the standard format of the delivered
  DataPoint carries \<open>"MQTT"\<close>, not \<open>"bus"\<close>.
\<close>

theorem mqtt_message_protocol_counterexample:
  "mqtt_effects (mqtt_on_message sample_parse 1000 1001 ''lab/dev-1/data''
       ''{\"temperature\": 20.5}'' sample_mqtt_registered)
     = mqtt_effects sample_mqtt_registered @
         [OnData \<lparr> deviceId = JStr ''dev-1'', protocol = JStr ''MQTT'',
                   timestamp = JDate 1000,
                   parameters = JObj [(''temperature'', JNum (41/2))],
                   experimentId = Null, createdAt = JDate 1001 \<rparr>]
   \<and> toStandardFormat sample_toISOString
         \<lparr> deviceId = JStr ''dev-1'', protocol = JStr ''MQTT'', timestamp = JDate 1000,
           parameters = JObj [(''temperature'', JNum (41/2))],
           experimentId = Null, createdAt = JDate 1001 \<rparr>
       = Inr (JObj [(''device_id'', JStr ''dev-1''),
                    (''timestamp'', JStr ''1970-01-01T00:00:01.000Z''),
                    (''protocol'', JStr ''MQTT''),
                    (''parameters'', JObj [(''temperature'', JNum (41/2))]),
                    (''experiment_id'', Null)])
   \<and> get_prop (JObj [(''device_id'', JStr ''dev-1''),
                    (''timestamp'', JStr ''1970-01-01T00:00:01.000Z''),
                    (''protocol'', JStr ''MQTT''),
                    (''parameters'', JObj [(''temperature'', JNum (41/2))]),
                    (''experiment_id'', Null)]) ''protocol'' \<noteq> Inr (JStr ''bus'')"
  by (simp add: mqtt_on_message_def mqtt_message_try_def new_DataPoint_def js_or_def
        toStandardFormat_def sample_parse_def sample_mqtt_registered_def
        mqtt_subscribe_callback_def mqtt_registerDevice_def sample_dev1_def no_details_def
        mqtt_connect_def new_MqttAdapter_def sample_toISOString_def)

text \<open>
  C5, as the code has it. Let device \<open>tc-100\<close> be registered with a non-empty control
  topic and let the \<open>setTemperature\<close> command with \<open>{target: 40}\<close> be sent to it.
  If the adapter holds a client, \<open>client.publish\<close> is called exactly once, on that
  control topic, with a message that decodes to
  \<open>{command: "setTemperature", parameters: {target: 40}}\<close> (for any serialiser and
  parser that round-trip this body), and nothing else changes; the command resolves
  when the publish callback reports no error and is rejected with the callback's error
  when it reports one. If the adapter holds no client, the command is rejected with a
  TypeError, \<open>client.publish\<close> is not called and the adapter is unchanged.
\<close>

theorem mqtt_sendCommand_publishes:
  assumes "map_of (mqtt_deviceMap a) ''tc-100'' = Some dev"
    and "connection_details dev = Some cd"
    and "mqtt_topics cd = Some t"
    and "control t = Some control_topic"
    and "control_topic \<noteq> []"
    and "JSON_parse (JSON_stringify (JObj [(''command'', JStr ''setTemperature''),
                       (''parameters'', JObj [(''target'', JNum 40)])]))
         = Some (JObj [(''command'', JStr ''setTemperature''),
                       (''parameters'', JObj [(''target'', JNum 40)])])"
  shows "case client a of
           None \<Rightarrow>
             mqtt_sendCommand JSON_stringify publish_err
                 \<lparr> cmd_device_id = ''tc-100'', cmd_command = ''setTemperature'',
                   cmd_parameters = JObj [(''target'', JNum 40)] \<rparr> a
               = (Inl (TypeError ''Cannot read properties of null (reading publish)''), a)
         | Some c \<Rightarrow>
             mqtt_sendCommand JSON_stringify publish_err
                 \<lparr> cmd_device_id = ''tc-100'', cmd_command = ''setTemperature'',
                   cmd_parameters = JObj [(''target'', JNum 40)] \<rparr> a
               = (case publish_err of Some e \<Rightarrow> Inl e | None \<Rightarrow> Inr (),
                  a\<lparr> mqtt_effects := mqtt_effects a @
                       [MqttPublish c control_topic
                          (JSON_stringify (JObj [(''command'', JStr ''setTemperature''),
                             (''parameters'', JObj [(''target'', JNum 40)])]))] \<rparr>)
             \<and> JSON_parse (JSON_stringify (JObj [(''command'', JStr ''setTemperature''),
                             (''parameters'', JObj [(''target'', JNum 40)])]))
               = Some (JObj [(''command'', JStr ''setTemperature''),
                             (''parameters'', JObj [(''target'', JNum 40)])])"
  using assms
  by (simp add: mqtt_sendCommand_def command_message_def js_or_def split: option.splits)

theorem mqtt_sendCommand_publishes_witness:
  "mqtt_sendCommand sample_stringify None
       \<lparr> cmd_device_id = ''tc-100'', cmd_command = ''setTemperature'',
         cmd_parameters = JObj [(''target'', JNum 40)] \<rparr>
       (snd (mqtt_registerDevice sample_tc100 sample_mqtt_connected))
     = (Inr (),
        (snd (mqtt_registerDevice sample_tc100 sample_mqtt_connected))
          \<lparr> mqtt_effects :=
              mqtt_effects (snd (mqtt_registerDevice sample_tc100 sample_mqtt_connected))
              @ [MqttPublish 0 ''lab/tc-100/control''
                   ''{\"command\":\"setTemperature\",\"parameters\":{\"target\":40}}''] \<rparr>)
   \<and> sample_parse ''{\"command\":\"setTemperature\",\"parameters\":{\"target\":40}}''
       = Some (JObj [(''command'', JStr ''setTemperature''),
                     (''parameters'', JObj [(''target'', JNum 40)])])
   \<and> mqtt_sendCommand sample_stringify None
          \<lparr> cmd_device_id = ''tc-100'', cmd_command = ''setTemperature'',
            cmd_parameters = JObj [(''target'', JNum 40)] \<rparr>
          (snd (mqtt_registerDevice sample_tc100 (new_MqttAdapter ''mqtt://localhost:1883'')))
        = (Inl (TypeError ''Cannot read properties of null (reading publish)''),
           snd (mqtt_registerDevice sample_tc100 (new_MqttAdapter ''mqtt://localhost:1883'')))"
proof -
  let ?a = "snd (mqtt_registerDevice sample_tc100 sample_mqtt_connected)"
  let ?b = "snd (mqtt_registerDevice sample_tc100 (new_MqttAdapter ''mqtt://localhost:1883''))"
  let ?cd = "no_details\<lparr> mqtt_topics :=
         Some \<lparr> data = None, control = Some ''lab/tc-100/control'' \<rparr> \<rparr>"
  have 1: "map_of (mqtt_deviceMap ?a) ''tc-100'' = Some sample_tc100"
    by (simp add: mqtt_registerDevice_def sample_tc100_def no_details_def)
  have b1: "map_of (mqtt_deviceMap ?b) ''tc-100'' = Some sample_tc100"
    by (simp add: mqtt_registerDevice_def sample_tc100_def no_details_def)
  have 2: "connection_details sample_tc100 = Some ?cd"
    by (simp add: sample_tc100_def)
  have 3: "mqtt_topics ?cd = Some \<lparr> data = None, control = Some ''lab/tc-100/control'' \<rparr>"
    by simp
  have 4: "control \<lparr> data = None, control = Some ''lab/tc-100/control'' \<rparr> = Some ''lab/tc-100/control''"
    by simp
  have 5: "''lab/tc-100/control'' \<noteq> []" by simp
  have 6: "client ?a = Some 0"
    by (simp add: mqtt_registerDevice_def sample_tc100_def no_details_def
          sample_mqtt_connected_def mqtt_connect_def new_MqttAdapter_def)
  have b6: "client ?b = None"
    by (simp add: mqtt_registerDevice_def sample_tc100_def no_details_def new_MqttAdapter_def)
  have 7: "sample_parse (sample_stringify (JObj [(''command'', JStr ''setTemperature''),
                       (''parameters'', JObj [(''target'', JNum 40)])]))
         = Some (JObj [(''command'', JStr ''setTemperature''),
                       (''parameters'', JObj [(''target'', JNum 40)])])"
    by (simp add: sample_parse_def sample_stringify_def)
  from mqtt_sendCommand_publishes
         [where JSON_parse = sample_parse and JSON_stringify = sample_stringify
            and publish_err = None and a = ?a, OF 1 2 3 4 5 7]
       mqtt_sendCommand_publishes
         [where JSON_parse = sample_parse and JSON_stringify = sample_stringify
            and publish_err = None and a = ?b, OF b1 2 3 4 5 7]
       6 b6
  show ?thesis by (simp add: sample_stringify_def)
qed

text \<open>
  C5, as claimed, fails on an adapter without a client: a device with only a control
  topic registers successfully before \<open>connect()\<close>, and sending the command to it is
  rejected with a TypeError and publishes nothing.
\<close>

theorem mqtt_sendCommand_unconnected_counterexample:
  "fst (mqtt_registerDevice sample_tc100 (new_MqttAdapter ''mqtt://localhost:1883'')) = Inr ()
   \<and> map_of (mqtt_deviceMap (snd (mqtt_registerDevice sample_tc100
         (new_MqttAdapter ''mqtt://localhost:1883'')))) ''tc-100'' = Some sample_tc100
   \<and> mqtt_sendCommand sample_stringify None sample_setTemperature
        (snd (mqtt_registerDevice sample_tc100 (new_MqttAdapter ''mqtt://localhost:1883'')))
      = (Inl (TypeError ''Cannot read properties of null (reading publish)''),
         snd (mqtt_registerDevice sample_tc100 (new_MqttAdapter ''mqtt://localhost:1883'')))
   \<and> mqtt_effects (snd (mqtt_registerDevice sample_tc100
         (new_MqttAdapter ''mqtt://localhost:1883''))) = []"
  by (simp add: mqtt_sendCommand_def mqtt_registerDevice_def sample_tc100_def no_details_def
        new_MqttAdapter_def sample_setTemperature_def)

text \<open>
  C9, as the code has it. A second \<open>connect()\<close> on the MQTT adapter, both attempts
  reaching the \<open>connect\<close> event, resolves without error but is not a no-op: it makes a
  new client and stores it in \<open>this.client\<close> in place of the first, which is not ended;
  the subscriptions and the device map are untouched.
\<close>

theorem mqtt_connect_twice_replaces_client:
  "mqtt_connect ConnectEvent (snd (mqtt_connect ConnectEvent a)) =
     (Inr (),
      a\<lparr> client := Some (Suc (mqtt_created a)),
         mqtt_live := mqtt_live a @ [mqtt_created a, Suc (mqtt_created a)],
         mqtt_created := Suc (Suc (mqtt_created a)),
         mqtt_effects := mqtt_effects a @
           [OnConnection ''connected'' ''MQTT'', OnConnection ''connected'' ''MQTT''] \<rparr>)
   \<and> client (snd (mqtt_connect ConnectEvent a)) = Some (mqtt_created a)
   \<and> client (snd (mqtt_connect ConnectEvent (snd (mqtt_connect ConnectEvent a))))
       \<noteq> client (snd (mqtt_connect ConnectEvent a))"
  by (simp add: mqtt_connect_def)

text \<open>
  C9, as claimed, fails: after a second \<open>connect()\<close> the adapter holds a different
  client and two clients are live.
\<close>

theorem mqtt_connect_twice_counterexample:
  "client sample_mqtt_connected = Some 0
   \<and> mqtt_live sample_mqtt_connected = [0]
   \<and> client (snd (mqtt_connect ConnectEvent sample_mqtt_connected)) = Some 1
   \<and> mqtt_live (snd (mqtt_connect ConnectEvent sample_mqtt_connected)) = [0, 1]
   \<and> snd (mqtt_connect ConnectEvent sample_mqtt_connected) \<noteq> sample_mqtt_connected"
  by (simp add: sample_mqtt_connected_def mqtt_connect_def new_MqttAdapter_def)

section \<open>Inbound messages\<close>

text \<open>In the MQTT adapter a message that does not parse, or whose topic resolves to no
  registered device, leaves the adapter exactly as it was, and a following message that
  parses, on a topic subscribed for a registered device, hands one DataPoint for that
  device to the data callback.\<close>

lemma mqtt_message_dropped:
  assumes "JSON_parse bad = None \<or> map_of (subscriptions a) topic = None
       \<or> map_of (subscriptions a) topic = Some []
       \<or> (\<exists>d. map_of (subscriptions a) topic = Some d \<and> map_of (mqtt_deviceMap a) d = None)"
  shows "mqtt_on_message JSON_parse t t' topic bad a = a"
  using assms
  by (auto simp: mqtt_on_message_def mqtt_message_try_def new_DataPoint_def
           split: option.splits sum.splits)

lemma mqtt_message_after_dropped:
  assumes "JSON_parse bad = None \<or> map_of (subscriptions a) topic = None
       \<or> map_of (subscriptions a) topic = Some []
       \<or> (\<exists>d. map_of (subscriptions a) topic = Some d \<and> map_of (mqtt_deviceMap a) d = None)"
    and "JSON_parse good = Some v"
    and "map_of (subscriptions a) topic2 = Some d" and "d \<noteq> []"
    and "map_of (mqtt_deviceMap a) d = Some dev"
  shows "mqtt_on_message JSON_parse t2 t2' topic2 good
            (mqtt_on_message JSON_parse t t' topic bad a)
          = a\<lparr> mqtt_effects := mqtt_effects a @
               [OnData \<lparr> deviceId = JStr d, protocol = JStr ''MQTT'', timestamp = JDate t2,
                         parameters = js_or v (JObj []), experimentId = Null,
                         createdAt = JDate t2' \<rparr>] \<rparr>"
proof -
  have "mqtt_on_message JSON_parse t t' topic bad a = a"
    using assms(1) by (rule mqtt_message_dropped)
  then show ?thesis using assms(2-)
    by (simp add: mqtt_on_message_def mqtt_message_try_def new_DataPoint_def js_or_def)
qed

text \<open>In the WebSocket adapter a message that does not parse leaves the adapter as it
  was, whatever the connection.\<close>

lemma ws_message_dropped:
  "JSON_parse bad = None \<Longrightarrow> ws_on_message JSON_parse t t' connection (Utf8 bad) w = w"
  by (simp add: ws_on_message_def ws_message_try_def)

text \<open>Registration only stores devices that have a \<open>websocket_url\<close>, and nothing
  else adds to the device map.\<close>

lemma in_set_update: "x \<in> set (AList.update k v al) \<Longrightarrow> x = (k, v) \<or> x \<in> set al"
  by (induction al) (auto split: if_splits)

lemma in_set_delete: "x \<in> set (AList.delete k al) \<Longrightarrow> x \<in> set al"
  by (simp add: AList.delete_eq)

lemma ws_new_have_url: "ws_devices_have_url new_WebSocketAdapter"
  by (simp add: ws_devices_have_url_def new_WebSocketAdapter_def)

lemma ws_registerDevice_have_url:
  "ws_devices_have_url a \<Longrightarrow> ws_devices_have_url (snd (ws_registerDevice dev a))"
  by (auto simp: ws_devices_have_url_def ws_registerDevice_def dest!: in_set_update
           split: option.splits)

lemma ws_on_connect_have_url:
  "ws_devices_have_url a \<Longrightarrow> ws_devices_have_url (ws_on_connect connection a)"
  by (simp add: ws_devices_have_url_def ws_on_connect_def)

lemma ws_on_message_have_url:
  "ws_devices_have_url a \<Longrightarrow> ws_devices_have_url (ws_on_message JSON_parse t t' connection msg a)"
  by (auto simp: ws_devices_have_url_def ws_on_message_def ws_message_try_def new_DataPoint_def
           split: ws_message.splits option.splits sum.splits)

lemma ws_disconnect_have_url:
  "ws_devices_have_url a \<Longrightarrow> ws_devices_have_url (snd (ws_disconnect devId a))"
  by (auto simp: ws_devices_have_url_def ws_disconnect_def ws_disconnect_all_def
        ws_disconnect_device_def dest!: in_set_delete split: option.splits)

text \<open>A lookup for \<open>undefined\<close> finds none of these devices, so a connection whose
  \<open>url\<close> reads \<open>undefined\<close> never delivers anything.\<close>

lemma findDeviceIdByUrl_undefined:
  "\<forall>x \<in> set entries. \<exists>cd u. connection_details (snd x) = Some cd \<and> websocket_url cd = Some u \<Longrightarrow>
   findDeviceIdByUrl Undefined entries = Inr None"
  by (induction entries) auto

lemma ws_no_url_no_delivery:
  assumes "read_prop connection ''url'' = Undefined" and "ws_devices_have_url w"
  shows "ws_on_message JSON_parse t t' connection message w = w"
  using assms findDeviceIdByUrl_undefined [of "ws_deviceMap w"]
  by (auto simp: ws_on_message_def ws_message_try_def ws_devices_have_url_def
           split: ws_message.splits option.splits sum.splits)

text \<open>
  C8. A malformed message is dropped without a change of state by both handlers, and
  the MQTT adapter delivers the well-formed message that follows. The WebSocket adapter
  does not: its handler finds the device through \<open>connection.url\<close>, which the
  connection does not have, so the lookup is for \<open>undefined\<close> and the well-formed
  message for the registered device \<open>ws-1\<close>, arriving on its open connection after a
  malformed one, is dropped as well; the data callback is never invoked.
\<close>

theorem ws_wellformed_message_not_delivered:
  "ws_deviceMap sample_ws_registered = [(''ws-1'', sample_ws1)]
   \<and> websocket_url (no_details\<lparr> websocket_url := Some ''ws://lab:8080'' \<rparr>) = Some ''ws://lab:8080''
   \<and> sample_parse ''not json'' = None
   \<and> sample_parse ''{\"temperature\": 20.5}'' = Some (JObj [(''temperature'', JNum (41/2))])
   \<and> ws_on_message sample_parse 1000 1001 sample_connection (Utf8 ''not json'')
        sample_ws_registered = sample_ws_registered
   \<and> ws_on_message sample_parse 2000 2001 sample_connection (Utf8 ''{\"temperature\": 20.5}'')
        (ws_on_message sample_parse 1000 1001 sample_connection (Utf8 ''not json'')
           sample_ws_registered)
       = sample_ws_registered
   \<and> ws_effects sample_ws_registered
       = [WsConnect ''ws://lab:8080'' None, OnConnection ''connected'' ''WebSocket'']"
  by (simp add: sample_ws_registered_def ws_on_connect_def ws_registerDevice_def
        sample_ws1_def no_details_def new_WebSocketAdapter_def sample_connection_def
        sample_parse_def ws_on_message_def ws_message_try_def)

section \<open>The WebSocket adapter\<close>

text \<open>
  C6. Two devices with the same WebSocket URL registered one after the other should
  share one connection. \<open>registerDevice\<close> looks only at connections already stored,
  and a connection is stored when the client's \<open>connect\<close> event arrives; registering the
  second device before that event calls \<open>client.connect\<close> for the same URL again.
  When both connections have opened, each has been stored under the value of its
  \<open>connection.url\<close>, which is \<open>undefined\<close>: the second is stored over the first,
  and no connection is stored under the URL.
\<close>

theorem ws_register_same_url_connects_twice:
  "ws_registerDevice sample_ws2 (snd (ws_registerDevice sample_ws1 new_WebSocketAdapter))
     = (Inr (),
        \<lparr> connections = [],
          ws_deviceMap = [(''ws-1'', sample_ws1), (''ws-2'', sample_ws2)],
          ws_opened = 0,
          ws_effects = [WsConnect ''ws://lab:8080'' None, WsConnect ''ws://lab:8080'' None] \<rparr>)
   \<and> connections (ws_on_connect sample_connection (ws_on_connect sample_connection
         (snd (ws_registerDevice sample_ws2
            (snd (ws_registerDevice sample_ws1 new_WebSocketAdapter))))))
       = [(Undefined, 1)]
   \<and> ws_opened (ws_on_connect sample_connection (ws_on_connect sample_connection
         (snd (ws_registerDevice sample_ws2
            (snd (ws_registerDevice sample_ws1 new_WebSocketAdapter)))))) = 2"
  by (simp add: ws_registerDevice_def ws_on_connect_def sample_ws1_def sample_ws2_def
        no_details_def new_WebSocketAdapter_def sample_connection_def)

text \<open>As long as no connection is stored under the URL itself, every registration for
  that URL sends a connect request; and the \<open>connect\<close> event of a connection whose
  \<open>url\<close> reads \<open>undefined\<close> stores nothing under a URL.\<close>

lemma ws_register_sends_connect:
  assumes "map_of (connections a) (JStr url) = None"
    and "connection_details dev = Some cd" and "websocket_url cd = Some url" and "url \<noteq> []"
  shows "ws_effects (snd (ws_registerDevice dev a))
           = ws_effects a @ [WsConnect url (sub_protocol cd)]"
  using assms by (simp add: ws_registerDevice_def)

lemma ws_on_connect_no_url:
  assumes "read_prop connection ''url'' = Undefined"
  shows "map_of (connections (ws_on_connect connection a)) (JStr url)
           = map_of (connections a) (JStr url)"
  using assms by (simp add: ws_on_connect_def)

section \<open>The REST adapter: polling and disconnect\<close>

lemma map_of_delete: "map_of (AList.delete k al) k' = (if k' = k then None else map_of al k')"
  by (simp add: delete_conv')

lemma stopPolling_recorded:
  assumes "timers_recorded a"
  shows "timers_recorded (stopPolling d a)"
  using assms
  by (auto simp: timers_recorded_def stopPolling_def map_of_delete split: option.splits)

lemma stopPolling_lookup:
  "map_of (pollingIntervals (stopPolling d a)) d' =
     (if d' = d then None else map_of (pollingIntervals a) d')"
  by (auto simp: stopPolling_def map_of_delete split: option.splits)

lemma stopPolling_other [simp]:
  "rest_deviceMap (stopPolling d a) = rest_deviceMap a"
  "inflight (stopPolling d a) = inflight a"
  "rest_effects (stopPolling d a) = rest_effects a"
  "pending_tests (stopPolling d a) = pending_tests a"
  "next_timer (stopPolling d a) = next_timer a"
  by (auto simp: stopPolling_def split: option.splits)

lemma recorded_no_timer:
  assumes "timers_recorded a" and "map_of (pollingIntervals a) d = None"
  shows "timers_of d a = []"
  using assms by (auto simp: timers_recorded_def timers_of_def filter_empty_conv)

lemma startPolling_recorded:
  assumes "timers_recorded a"
  shows "timers_recorded (snd (startPolling d n a))"
proof -
  let ?a1 = "stopPolling d a"
  have r1: "timers_recorded ?a1" using assms by (rule stopPolling_recorded)
  have n1: "map_of (pollingIntervals ?a1) d = None" by (simp add: stopPolling_lookup)
  have nt: "\<forall>t \<in> set (timers ?a1). fst (snd t) \<noteq> d"
    using r1 n1 by (auto simp: timers_recorded_def)
  show ?thesis
    using r1 nt
    by (auto simp: startPolling_def Let_def timers_recorded_def map_of_update
             split: option.splits)
qed

lemma startPolling_lookup_other:
  "d' \<noteq> d \<Longrightarrow> map_of (pollingIntervals (snd (startPolling d n a))) d'
     = map_of (pollingIntervals a) d'"
  by (auto simp: startPolling_def Let_def stopPolling_lookup map_of_update split: option.splits)

lemma startPolling_unknown:
  "map_of (rest_deviceMap a) d = None \<Longrightarrow>
   map_of (pollingIntervals (snd (startPolling d n a))) d = None"
  by (auto simp: startPolling_def Let_def stopPolling_lookup split: option.splits)

lemma startPolling_other [simp]:
  "rest_deviceMap (snd (startPolling d n a)) = rest_deviceMap a"
  "inflight (snd (startPolling d n a)) = inflight a"
  "rest_effects (snd (startPolling d n a)) = rest_effects a"
  by (auto simp: startPolling_def Let_def split: option.splits)

lemma settled_recorded:
  assumes "timers_recorded a"
  shows "timers_recorded (snd (rest_testConnection_settled f dev a))"
proof (cases f)
  case (Some e)
  then show ?thesis using assms
    by (simp add: rest_testConnection_settled_def timers_recorded_def)
next
  case None
  let ?a1 = "a\<lparr> pending_tests := remove1 dev (pending_tests a),
                 rest_effects := rest_effects a @ [OnConnection ''connected'' ''REST''] \<rparr>"
  have r1: "timers_recorded ?a1" using assms by (simp add: timers_recorded_def)
  show ?thesis using None r1 startPolling_recorded [OF r1]
    by (auto simp: rest_testConnection_settled_def Let_def split: option.splits)
qed

lemma settled_quiet:
  assumes "quiet d a"
  shows "quiet d (snd (rest_testConnection_settled f dev a))
       \<and> pending_load d (snd (rest_testConnection_settled f dev a)) = pending_load d a"
proof (cases f)
  case (Some e)
  then show ?thesis using assms
    by (simp add: rest_testConnection_settled_def quiet_def timers_recorded_def
          pending_load_def deliveries_def)
next
  case None
  let ?a1 = "a\<lparr> pending_tests := remove1 dev (pending_tests a),
                 rest_effects := rest_effects a @ [OnConnection ''connected'' ''REST''] \<rparr>"
  have q1: "quiet d ?a1" using assms by (simp add: quiet_def timers_recorded_def)
  have l1: "pending_load d ?a1 = pending_load d a"
    by (simp add: pending_load_def deliveries_def)
  have sp: "\<And>n. quiet d (snd (startPolling (device_id dev) n ?a1))
              \<and> pending_load d (snd (startPolling (device_id dev) n ?a1)) = pending_load d a"
  proof -
    fix n
    have rec: "timers_recorded (snd (startPolling (device_id dev) n ?a1))"
      using q1 by (simp add: quiet_def startPolling_recorded)
    have look: "map_of (pollingIntervals (snd (startPolling (device_id dev) n ?a1))) d = None"
    proof (cases "device_id dev = d")
      case True
      then show ?thesis using q1 startPolling_unknown [of ?a1 d n] by (simp add: quiet_def)
    next
      case False
      then show ?thesis using q1 startPolling_lookup_other [of d "device_id dev" n ?a1]
        by (simp add: quiet_def)
    qed
    have dm: "map_of (rest_deviceMap (snd (startPolling (device_id dev) n ?a1))) d = None"
      using q1 by (simp add: quiet_def)
    have ld: "pending_load d (snd (startPolling (device_id dev) n ?a1)) = pending_load d a"
      by (simp add: pending_load_def deliveries_def)
    show "quiet d (snd (startPolling (device_id dev) n ?a1))
              \<and> pending_load d (snd (startPolling (device_id dev) n ?a1)) = pending_load d a"
      using rec look dm ld by (simp add: quiet_def)
  qed
  show ?thesis using None q1 l1 sp
    by (auto simp: rest_testConnection_settled_def Let_def split: option.splits)
qed

lemma register_sync_recorded:
  "timers_recorded a \<Longrightarrow> rest_registerDevice_sync dev a = Inr a1 \<Longrightarrow> timers_recorded a1"
  by (fastforce simp: rest_registerDevice_sync_def timers_recorded_def split: option.splits if_splits)

lemma register_sync_quiet:
  "quiet d a \<Longrightarrow> device_id dev \<noteq> d \<Longrightarrow> rest_registerDevice_sync dev a = Inr a1 \<Longrightarrow>
   quiet d a1 \<and> pending_load d a1 = pending_load d a"
  by (fastforce simp: rest_registerDevice_sync_def quiet_def timers_recorded_def
        pending_load_def deliveries_def split: option.splits if_splits)

lemma timer_fired_recorded:
  "timers_recorded a \<Longrightarrow> timers_recorded (rest_timer_fired h a)"
  by (auto simp: rest_timer_fired_def timers_recorded_def split: option.splits)

lemma timer_fired_quiet:
  assumes "quiet d a"
  shows "quiet d (rest_timer_fired h a) \<and> pending_load d (rest_timer_fired h a) = pending_load d a"
proof (cases "map_of (timers a) h")
  case None
  then show ?thesis using assms by (simp add: rest_timer_fired_def)
next
  case (Some du)
  obtain d' u where du: "du = (d', u)" by (cases du)
  have "(h, d', u) \<in> set (timers a)" using Some du by (auto dest: map_of_SomeD)
  then have "map_of (pollingIntervals a) d' = Some h"
    using assms by (auto simp: quiet_def timers_recorded_def)
  then have ne: "d' \<noteq> d" using assms by (auto simp: quiet_def)
  show ?thesis using Some du ne assms
    by (simp add: rest_timer_fired_def quiet_def timers_recorded_def pending_load_def
          deliveries_def)
qed

lemma poll_settled_recorded:
  "timers_recorded a \<Longrightarrow> timers_recorded (rest_poll_settled t t' d' resp a)"
  by (auto simp: rest_poll_settled_def timers_recorded_def new_DataPoint_def
           split: option.splits sum.splits)

lemma count_list_remove1:
  "count_list (remove1 x xs) y =
     (if x = y \<and> x \<in> set xs then count_list xs y - 1 else count_list xs y)"
  by (induction xs) auto

lemma count_list_pos: "x \<in> set xs \<Longrightarrow> 0 < count_list xs x"
  by (induction xs) auto

lemma poll_settled_quiet:
  assumes "quiet d a"
  shows "quiet d (rest_poll_settled t t' d' resp a)
       \<and> pending_load d (rest_poll_settled t t' d' resp a) \<le> pending_load d a"
proof (cases "d' \<in> set (inflight a)")
  case False
  then show ?thesis using assms by (simp add: rest_poll_settled_def)
next
  case True
  have pos: "d' = d \<Longrightarrow> 0 < count_list (inflight a) d"
    using True by (simp add: count_list_pos)
  show ?thesis using True assms pos
    by (cases "d' = d")
       (auto simp: rest_poll_settled_def quiet_def timers_recorded_def pending_load_def
          deliveries_def new_DataPoint_def js_or_def count_list_remove1
          split: option.splits)
qed

lemma fold_stopPolling_recorded:
  "timers_recorded a \<Longrightarrow> timers_recorded (fold stopPolling ks a)"
  by (induction ks arbitrary: a) (simp_all add: stopPolling_recorded)

lemma fold_stopPolling_lookup:
  "map_of (pollingIntervals (fold stopPolling ks a)) d =
     (if d \<in> set ks then None else map_of (pollingIntervals a) d)"
  by (induction ks arbitrary: a) (auto simp: stopPolling_lookup)

lemma fold_stopPolling_other [simp]:
  "inflight (fold stopPolling ks a) = inflight a"
  "rest_effects (fold stopPolling ks a) = rest_effects a"
  by (induction ks arbitrary: a) simp_all

lemma disconnect_all_quiet:
  assumes "timers_recorded a"
  shows "quiet d (rest_disconnect_all a) \<and> pending_load d (rest_disconnect_all a) = pending_load d a"
proof -
  let ?b = "fold stopPolling (map fst (pollingIntervals a)) a"
  have r: "timers_recorded ?b" using assms by (rule fold_stopPolling_recorded)
  have l: "map_of (pollingIntervals ?b) d = None"
    by (auto simp: fold_stopPolling_lookup map_of_eq_None_iff)
  show ?thesis using r l
    by (simp add: rest_disconnect_all_def quiet_def timers_recorded_def pending_load_def
          deliveries_def)
qed

lemma disconnect_device_quiet:
  assumes "timers_recorded a"
  shows "quiet d ((stopPolling d a)\<lparr> rest_deviceMap := AList.delete d (rest_deviceMap a) \<rparr>)"
proof -
  have r: "timers_recorded (stopPolling d a)" using assms by (rule stopPolling_recorded)
  show ?thesis using r
    by (simp add: quiet_def timers_recorded_def stopPolling_lookup map_of_delete)
qed

lemma disconnect_target_quiet:
  assumes "timers_recorded a" and "target = None \<or> target = Some d"
  shows "quiet d (rest_disconnect target a)
       \<and> pending_load d (rest_disconnect target a) = pending_load d a"
  using assms disconnect_all_quiet [OF assms(1), of d] disconnect_device_quiet [OF assms(1), of d]
  by (auto simp: rest_disconnect_def pending_load_def deliveries_def)

lemma disconnect_keeps_quiet:
  assumes "quiet d a"
  shows "quiet d (rest_disconnect target a)
       \<and> pending_load d (rest_disconnect target a) = pending_load d a"
proof -
  have r: "timers_recorded a" using assms by (simp add: quiet_def)
  have dev: "\<And>d'. quiet d ((stopPolling d' a)\<lparr> rest_deviceMap := AList.delete d' (rest_deviceMap a) \<rparr>)"
    using assms stopPolling_recorded [OF r]
    by (simp add: quiet_def timers_recorded_def stopPolling_lookup map_of_delete)
  show ?thesis using disconnect_all_quiet [OF r, of d] dev
    by (auto simp: rest_disconnect_def pending_load_def deliveries_def split: option.splits)
qed

lemma step_recorded:
  assumes "timers_recorded a"
  shows "timers_recorded (rest_step ev a)"
proof (cases ev)
  case (RegisterDevice dev)
  then show ?thesis using assms register_sync_recorded [OF assms]
    by (auto split: sum.splits)
next
  case (HealthSettled dev f)
  then show ?thesis using assms settled_recorded [OF assms] by simp
next
  case (TimerFired h)
  then show ?thesis using assms by (simp add: timer_fired_recorded)
next
  case (PollSettled t t' d' resp)
  then show ?thesis using assms by (simp add: poll_settled_recorded)
next
  case (Disconnect target)
  have "timers_recorded (rest_disconnect_all a)"
    using disconnect_all_quiet [OF assms] by (simp add: quiet_def)
  moreover have "\<And>d. timers_recorded
      ((stopPolling d a)\<lparr> rest_deviceMap := AList.delete d (rest_deviceMap a) \<rparr>)"
    using disconnect_device_quiet [OF assms] by (simp add: quiet_def)
  ultimately show ?thesis using Disconnect
    by (auto simp: rest_disconnect_def split: option.splits)
qed

lemma step_quiet:
  assumes "quiet d a" and "\<not> registers d ev"
  shows "quiet d (rest_step ev a) \<and> pending_load d (rest_step ev a) \<le> pending_load d a"
proof (cases ev)
  case (RegisterDevice dev)
  then have "device_id dev \<noteq> d" using assms(2) by simp
  then show ?thesis using RegisterDevice assms(1) register_sync_quiet [of d a dev]
    by (auto split: sum.splits)
next
  case (HealthSettled dev f)
  then show ?thesis using assms(1) settled_quiet [OF assms(1), of f dev] by simp
next
  case (TimerFired h)
  then show ?thesis using timer_fired_quiet [OF assms(1), of h] by simp
next
  case (PollSettled t t' d' resp)
  then show ?thesis using poll_settled_quiet [OF assms(1)] by simp
next
  case (Disconnect target)
  then show ?thesis using disconnect_keeps_quiet [OF assms(1), of target] by simp
qed

lemma run_recorded:
  "timers_recorded a \<Longrightarrow> timers_recorded (rest_run events a)"
  unfolding rest_run_def
  by (induction events arbitrary: a) (simp_all add: step_recorded)

lemma run_quiet:
  "quiet d a \<Longrightarrow> \<forall>ev \<in> set events. \<not> registers d ev \<Longrightarrow>
   quiet d (rest_run events a) \<and> pending_load d (rest_run events a) \<le> pending_load d a"
  unfolding rest_run_def
proof (induction events arbitrary: a)
  case Nil
  then show ?case by simp
next
  case (Cons ev events)
  have s: "quiet d (rest_step ev a) \<and> pending_load d (rest_step ev a) \<le> pending_load d a"
    using Cons.prems by (simp add: step_quiet)
  have "quiet d (fold rest_step events (rest_step ev a))
      \<and> pending_load d (fold rest_step events (rest_step ev a)) \<le> pending_load d (rest_step ev a)"
    using Cons.IH [of "rest_step ev a"] s Cons.prems(2) by simp
  then show ?case using s by simp
qed

lemma new_RestAdapter_recorded: "timers_recorded new_RestAdapter"
  by (simp add: timers_recorded_def new_RestAdapter_def)

text \<open>
  C7, as the code has it. Take any history of a RestAdapter, then \<open>disconnect\<close> for
  device \<open>d\<close> (or for all devices), then any further events that do not register
  \<open>d\<close> again. From the disconnect on no timer polls \<open>d\<close> and \<open>pollingIntervals\<close>
  has no entry for it, so no new poll request for \<open>d\<close> is ever sent; the data callback
  can still be invoked for \<open>d\<close>, but at most once for each poll request that was in
  flight when \<open>disconnect\<close> ran.
\<close>

theorem rest_disconnect_stops_polling:
  assumes "target = None \<or> target = Some d"
    and "\<forall>ev \<in> set later. \<not> registers d ev"
  shows "timers_of d (rest_run later (rest_disconnect target (rest_run history new_RestAdapter))) = []
       \<and> map_of (pollingIntervals
            (rest_run later (rest_disconnect target (rest_run history new_RestAdapter)))) d = None
       \<and> deliveries d (rest_run later (rest_disconnect target (rest_run history new_RestAdapter)))
           \<le> deliveries d (rest_run history new_RestAdapter)
               + count_list (inflight (rest_run history new_RestAdapter)) d"
proof -
  let ?a = "rest_run history new_RestAdapter"
  let ?b = "rest_disconnect target ?a"
  let ?c = "rest_run later ?b"
  have ra: "timers_recorded ?a" using new_RestAdapter_recorded by (rule run_recorded)
  have qb: "quiet d ?b \<and> pending_load d ?b = pending_load d ?a"
    using ra assms(1) by (rule disconnect_target_quiet)
  have qb1: "quiet d ?b" using qb by simp
  have qc: "quiet d ?c \<and> pending_load d ?c \<le> pending_load d ?b"
    using qb1 assms(2) by (rule run_quiet)
  have t: "timers_of d ?c = []"
    using qc by (simp add: quiet_def recorded_no_timer)
  have "deliveries d ?c \<le> pending_load d ?c" by (simp add: pending_load_def)
  then have "deliveries d ?c \<le> pending_load d ?a" using qb qc by simp
  then show ?thesis using t qc by (simp add: quiet_def pending_load_def)
qed

theorem rest_disconnect_stops_polling_witness:
  "timers_of ''pump-1''
     (rest_run [PollSettled 3000 3001 ''pump-1'' (Some sample_reading), TimerFired 0]
        (rest_disconnect (Some ''pump-1'') (rest_run sample_history new_RestAdapter))) = []
   \<and> map_of (pollingIntervals
        (rest_run [PollSettled 3000 3001 ''pump-1'' (Some sample_reading), TimerFired 0]
           (rest_disconnect (Some ''pump-1'') (rest_run sample_history new_RestAdapter))))
        ''pump-1'' = None
   \<and> deliveries ''pump-1''
        (rest_run [PollSettled 3000 3001 ''pump-1'' (Some sample_reading), TimerFired 0]
           (rest_disconnect (Some ''pump-1'') (rest_run sample_history new_RestAdapter)))
       \<le> deliveries ''pump-1'' (rest_run sample_history new_RestAdapter)
           + count_list (inflight (rest_run sample_history new_RestAdapter)) ''pump-1''"
proof -
  have 1: "Some ''pump-1'' = None \<or> Some ''pump-1'' = Some ''pump-1''" by simp
  have 2: "\<forall>ev \<in> set [PollSettled 3000 3001 ''pump-1'' (Some sample_reading), TimerFired 0].
             \<not> registers ''pump-1'' ev"
    by simp
  from rest_disconnect_stops_polling [OF 1 2] show ?thesis .
qed

text \<open>
  C7, as claimed, fails on its second half: with a poll request in flight, \<open>disconnect\<close>
  cancels the timer, and the response arriving afterwards still hands a DataPoint for the
  device to the data callback.
\<close>

theorem rest_poll_in_flight_counterexample:
  "timers (rest_run sample_history new_RestAdapter) = [(0, ''pump-1'', ''http://x/api/data'')]
   \<and> timers (rest_run (sample_history @ [Disconnect (Some ''pump-1'')]) new_RestAdapter) = []
   \<and> deliveries ''pump-1''
        (rest_run (sample_history @ [Disconnect (Some ''pump-1'')]) new_RestAdapter) = 0
   \<and> rest_effects
        (rest_run (sample_history @ [Disconnect (Some ''pump-1''),
                     PollSettled 3000 3001 ''pump-1'' (Some sample_reading)]) new_RestAdapter)
     = rest_effects (rest_run (sample_history @ [Disconnect (Some ''pump-1'')]) new_RestAdapter)
       @ [OnData \<lparr> deviceId = JStr ''pump-1'', protocol = JStr ''REST'', timestamp = JDate 3000,
                    parameters = JObj [(''flow_rate'', JNum 5)], experimentId = Null,
                    createdAt = JDate 3001 \<rparr>]
   \<and> deliveries ''pump-1''
        (rest_run (sample_history @ [Disconnect (Some ''pump-1''),
                     PollSettled 3000 3001 ''pump-1'' (Some sample_reading)]) new_RestAdapter) = 1"
  by (simp add: rest_run_def sample_history_def sample_pump1_def no_details_def sample_reading_def
        rest_registerDevice_sync_def rest_testConnection_settled_def startPolling_def
        stopPolling_def rest_timer_fired_def rest_poll_settled_def rest_disconnect_def
        new_RestAdapter_def new_DataPoint_def js_or_def endpoint_or_def deliveries_def Let_def)

section \<open>DataPoint\<close>

text \<open>
  C10. For every DataPoint the constructor builds, and whatever the clock reads later,
  \<open>fromDatabase (toDatabase p)\<close> is \<open>p\<close> again: deviceId, protocol, timestamp,
  parameters, experimentId and createdAt are all equal to those of the original.
\<close>

theorem fromDatabase_toDatabase_roundtrip:
  "new_DataPoint t1 t2 options = Inr p \<Longrightarrow>
   fromDatabase t3 t4 (toDatabase p) = Inr p"
  by (auto simp: new_DataPoint_def fromDatabase_def toDatabase_def js_or_truthy js_or_Null
           split: sum.splits prod.splits)

theorem fromDatabase_toDatabase_roundtrip_witness:
  "new_DataPoint 1000 1001
     (JObj [(''deviceId'', JStr ''dev-1''), (''protocol'', JStr ''MQTT''),
            (''timestamp'', JDate 5), (''parameters'', JObj [(''temperature'', JNum (41/2))]),
            (''experimentId'', JStr '''')])
   = Inr \<lparr> deviceId = JStr ''dev-1'', protocol = JStr ''MQTT'', timestamp = JDate 5,
           parameters = JObj [(''temperature'', JNum (41/2))], experimentId = Null,
           createdAt = JDate 1001 \<rparr>
   \<and> fromDatabase 2000 2001
       (toDatabase \<lparr> deviceId = JStr ''dev-1'', protocol = JStr ''MQTT'', timestamp = JDate 5,
           parameters = JObj [(''temperature'', JNum (41/2))], experimentId = Null,
           createdAt = JDate 1001 \<rparr>)
     = Inr \<lparr> deviceId = JStr ''dev-1'', protocol = JStr ''MQTT'', timestamp = JDate 5,
           parameters = JObj [(''temperature'', JNum (41/2))], experimentId = Null,
           createdAt = JDate 1001 \<rparr>"
proof -
  have h: "new_DataPoint 1000 1001
     (JObj [(''deviceId'', JStr ''dev-1''), (''protocol'', JStr ''MQTT''),
            (''timestamp'', JDate 5), (''parameters'', JObj [(''temperature'', JNum (41/2))]),
            (''experimentId'', JStr '''')])
   = Inr \<lparr> deviceId = JStr ''dev-1'', protocol = JStr ''MQTT'', timestamp = JDate 5,
           parameters = JObj [(''temperature'', JNum (41/2))], experimentId = Null,
           createdAt = JDate 1001 \<rparr>"
    by (simp add: new_DataPoint_def js_or_def)
  from fromDatabase_toDatabase_roundtrip [OF h, of 2000 2001] h show ?thesis by simp
qed

end
